theory Spec2Isabelle
  imports Complex_Main
begin

section \<open>JavaScript numbers\<close>

text \<open>
  Every \<open>number\<close> of the source is an IEEE 754 binary64 value. A finite double is a
  rational, so \<open>Num r\<close> carries its exact value; the two infinities and NaN are separate
  constructors. The two zeros are identified: the only division whose divisor can be zero
  (\<open>weight / (heightInMeters * heightInMeters)\<close>) divides by a square, which is never the
  negative zero, and comparisons do not tell the zeros apart.
\<close>

datatype jsnum = Num rat | PosInf | NegInf | NaN

text \<open>The relational operators \<open><\<close>, \<open>>\<close>, \<open>>=\<close>: false whenever an operand is NaN.\<close>

fun js_lt :: "jsnum \<Rightarrow> jsnum \<Rightarrow> bool" where
  "js_lt NaN y = False"
| "js_lt x NaN = False"
| "js_lt (Num a) (Num b) = (a < b)"
| "js_lt (Num a) PosInf = True"
| "js_lt (Num a) NegInf = False"
| "js_lt PosInf y = False"
| "js_lt NegInf NegInf = False"
| "js_lt NegInf y = True"

definition js_gt :: "jsnum \<Rightarrow> jsnum \<Rightarrow> bool" where
  "js_gt x y = js_lt y x"

fun js_ge :: "jsnum \<Rightarrow> jsnum \<Rightarrow> bool" where
  "js_ge NaN y = False"
| "js_ge x NaN = False"
| "js_ge (Num a) (Num b) = (b \<le> a)"
| "js_ge (Num a) PosInf = False"
| "js_ge (Num a) NegInf = True"
| "js_ge PosInf y = True"
| "js_ge NegInf NegInf = True"
| "js_ge NegInf y = False"

subsection \<open>Rounding to the nearest double\<close>

text \<open>\<open>bit_length n\<close> is the number of binary digits of \<open>n\<close>.\<close>

function bit_length :: "int \<Rightarrow> int" where
  "bit_length n = (if n \<le> 0 then 0 else 1 + bit_length (n div 2))"
  by pat_completeness auto
termination
  by (relation "measure nat") auto

declare bit_length.simps [simp del]

text \<open>For \<open>0 < x\<close>, \<open>floor_log2 x\<close> is the exponent \<open>e\<close> with \<open>2^e \<le> x < 2^(e+1)\<close>.\<close>

definition floor_log2 :: "rat \<Rightarrow> int" where
  "floor_log2 x =
     (if 1 \<le> x then bit_length \<lfloor>x\<rfloor> - 1
      else - bit_length (\<lceil>1 / x\<rceil> - 1))"

definition round_half_even :: "rat \<Rightarrow> int" where
  "round_half_even y =
     (let f = \<lfloor>y\<rfloor>; r = y - of_int f
      in if r < 1 / 2 then f
         else if 1 / 2 < r then f + 1
         else if even f then f else f + 1)"

text \<open>
  \<open>fl x\<close> is the double that an arithmetic operation with exact result \<open>x\<close> returns
  (round to nearest, ties to even): 53 significant bits, exponents from \<open>-1022\<close>
  (below that the spacing stays \<open>2^-1074\<close>: subnormals), overflow to an infinity when the
  rounded value reaches \<open>2^1024\<close>.
\<close>

definition fl :: "rat \<Rightarrow> jsnum" where
  "fl x =
     (if x = 0 then Num 0
      else
        let a = \<bar>x\<bar>;
            e = max (floor_log2 a) (- 1022);
            q = 2 powi (e - 52);
            r = of_int (round_half_even (a / q)) * q
        in if 2 powi 1024 \<le> r then (if 0 < x then PosInf else NegInf)
           else Num (if 0 < x then r else - r))"

subsection \<open>Arithmetic\<close>

fun js_mul :: "jsnum \<Rightarrow> jsnum \<Rightarrow> jsnum" where
  "js_mul NaN y = NaN"
| "js_mul x NaN = NaN"
| "js_mul (Num a) (Num b) = fl (a * b)"
| "js_mul (Num a) PosInf = (if a = 0 then NaN else if 0 < a then PosInf else NegInf)"
| "js_mul (Num a) NegInf = (if a = 0 then NaN else if 0 < a then NegInf else PosInf)"
| "js_mul PosInf (Num b) = (if b = 0 then NaN else if 0 < b then PosInf else NegInf)"
| "js_mul NegInf (Num b) = (if b = 0 then NaN else if 0 < b then NegInf else PosInf)"
| "js_mul PosInf PosInf = PosInf"
| "js_mul PosInf NegInf = NegInf"
| "js_mul NegInf PosInf = NegInf"
| "js_mul NegInf NegInf = PosInf"

text \<open>Division; a zero divisor is the positive zero (see above).\<close>

fun js_div :: "jsnum \<Rightarrow> jsnum \<Rightarrow> jsnum" where
  "js_div NaN y = NaN"
| "js_div x NaN = NaN"
| "js_div (Num a) (Num b) =
     (if b = 0 then (if a = 0 then NaN else if 0 < a then PosInf else NegInf)
      else fl (a / b))"
| "js_div (Num a) PosInf = Num 0"
| "js_div (Num a) NegInf = Num 0"
| "js_div PosInf (Num b) = (if 0 \<le> b then PosInf else NegInf)"
| "js_div NegInf (Num b) = (if 0 \<le> b then NegInf else PosInf)"
| "js_div PosInf y = NaN"
| "js_div NegInf y = NaN"

subsection \<open>\<open>Number(x.toFixed(1))\<close>\<close>

text \<open>
  \<open>Number.prototype.toFixed(1)\<close> returns a string. \<open>Tenths n\<close> stands for the decimal
  numeral with value \<open>n / 10\<close> (sign, integer digits, one fraction digit); \<open>Literal x\<close>
  stands for the strings that \<open>toFixed\<close> produces without rounding: \<open>"NaN"\<close>,
  \<open>"Infinity"\<close>, \<open>"-Infinity"\<close>, and the shortest round-trip representation used from
  \<open>10^21\<close> on.
\<close>

datatype fixed_string = Tenths int | Literal jsnum

text \<open>
  For a finite \<open>x\<close> below \<open>10^21\<close> in magnitude, \<open>toFixed(1)\<close> takes the integer \<open>n\<close>
  for which \<open>n / 10 - \<bar>x\<bar>\<close> is closest to zero, the larger \<open>n\<close> if there are two, and
  prefixes the sign of \<open>x\<close>.
\<close>

fun toFixed1 :: "jsnum \<Rightarrow> fixed_string" where
  "toFixed1 (Num x) =
     (if 10 ^ 21 \<le> \<bar>x\<bar> then Literal (Num x)
      else if x < 0 then Tenths (- \<lfloor>10 * \<bar>x\<bar> + 1 / 2\<rfloor>)
      else Tenths \<lfloor>10 * \<bar>x\<bar> + 1 / 2\<rfloor>)"
| "toFixed1 x = Literal x"

text \<open>\<open>Number(s)\<close> reads the string back: the double nearest to the decimal value.\<close>

fun Number :: "fixed_string \<Rightarrow> jsnum" where
  "Number (Tenths n) = fl (of_int n / 10)"
| "Number (Literal x) = x"

section \<open>The profile page\<close>

datatype smokingStatus = never | former | current

datatype alcoholConsumption = none | moderate | heavy

datatype activityLevel = sedentary | moderately_active | active

datatype predictedRisk = low | medium | high

record FamilyHistory =
  heartDisease :: bool
  diabetes :: bool
  hypertension :: bool

record ProfileData =
  height :: jsnum
  weight :: jsnum
  age :: jsnum
  bmi :: jsnum
  smokingStatus :: smokingStatus
  alcoholConsumption :: alcoholConsumption
  activityLevel :: activityLevel
  hasHypertension :: bool
  hasDiabetes :: bool
  hasHighBP :: bool
  familyHistory :: FamilyHistory
  healthRiskScore :: jsnum
  predictedRisk :: predictedRisk

text \<open>
  The body of the BMI effect:
  \<^verbatim>\<open>const heightInMeters = profileData.height / 100;
const bmi = Number((profileData.weight / (heightInMeters * heightInMeters)).toFixed(1));\<close>
\<close>

definition calcBmi :: "jsnum \<Rightarrow> jsnum \<Rightarrow> jsnum" where
  "calcBmi h w =
     (let heightInMeters = js_div h (Num 100)
      in Number (toFixed1 (js_div w (js_mul heightInMeters heightInMeters))))"

text \<open>
  The state of the component: the \<open>profileData\<close> and \<open>loading\<close> state variables; the
  suspended \<open>handleSubmit\<close> call, if any, with the \<open>profileData\<close> its closure holds; the
  BMI effects that renders have scheduled and that have not run yet, oldest first, each
  with the \<open>profileData\<close> its closure holds; and the toasts shown so far.
\<close>

datatype toast = success string | error string

record ProfilePage =
  profileData :: ProfileData
  loading :: bool
  submitted :: "ProfileData option"
  pendingEffects :: "ProfileData list"
  toasts :: "toast list"

text \<open>
  The initial state: \<open>age: user?.age || 30\<close> takes 30 when there is no user or the age is
  falsy (zero or NaN); the literal \<open>24.2\<close> denotes the double nearest to it.
\<close>

definition initialProfileData :: "jsnum option \<Rightarrow> ProfileData" where
  "initialProfileData userAge =
     \<lparr> height = Num 170,
       weight = Num 70,
       age = (case userAge of
                None \<Rightarrow> Num 30
              | Some a \<Rightarrow> if a = Num 0 \<or> a = NaN then Num 30 else a),
       bmi = fl (242 / 10),
       smokingStatus = never,
       alcoholConsumption = none,
       activityLevel = moderately_active,
       hasHypertension = False,
       hasDiabetes = False,
       hasHighBP = False,
       familyHistory = \<lparr> heartDisease = False, diabetes = False, hypertension = False \<rparr>,
       healthRiskScore = Num 25,
       predictedRisk = low \<rparr>"

text \<open>
  The effect "Calculate BMI when height or weight changes". Its body reads the height and
  weight of the \<open>profileData\<close> of its render and updates the state current when it runs
  (\<open>setProfileData(prev => ({ ...prev, bmi }))\<close>).
\<close>

definition bmiEffect :: "ProfileData \<Rightarrow> ProfileData \<Rightarrow> ProfileData" where
  "bmiEffect closure prev = prev\<lparr> bmi := calcBmi (height closure) (weight closure) \<rparr>"

text \<open>
  A render is committed with the state as the update left it; it schedules the effect when
  \<open>profileData.height\<close> or \<open>profileData.weight\<close> differs from the render before
  (the dependency array). The effect runs later, as a step of its own: until then the page
  shows the BMI of before. Scheduled effects run in the order of their renders.
\<close>

definition render :: "ProfileData \<Rightarrow> ProfilePage \<Rightarrow> ProfilePage" where
  "render before s =
     (if height (profileData s) \<noteq> height before \<or> weight (profileData s) \<noteq> weight before
      then s\<lparr> pendingEffects := pendingEffects s @ [profileData s] \<rparr>
      else s)"

definition runEffect :: "ProfilePage \<Rightarrow> ProfilePage" where
  "runEffect s =
     (case pendingEffects s of
        [] \<Rightarrow> s
      | closure # rest \<Rightarrow>
          s\<lparr> profileData := bmiEffect closure (profileData s), pendingEffects := rest \<rparr>)"

text \<open>The first render: the initial state, with the effect scheduled.\<close>

definition mount :: "jsnum option \<Rightarrow> ProfilePage" where
  "mount userAge =
     \<lparr> profileData = initialProfileData userAge,
       loading = False,
       submitted = None,
       pendingEffects = [initialProfileData userAge],
       toasts = [] \<rparr>"

text \<open>
  \<open>handleInputChange(field, value)\<close> sets one field. The form calls it with these fields,
  the numeric ones with \<open>Number(e.target.value)\<close>.
\<close>

datatype input =
    height_value jsnum
  | weight_value jsnum
  | age_value jsnum
  | smokingStatus_value smokingStatus
  | alcoholConsumption_value alcoholConsumption
  | activityLevel_value activityLevel
  | hasHypertension_value bool
  | hasDiabetes_value bool
  | hasHighBP_value bool

fun handleInputChange :: "input \<Rightarrow> ProfileData \<Rightarrow> ProfileData" where
  "handleInputChange (height_value v) prev = prev\<lparr> height := v \<rparr>"
| "handleInputChange (weight_value v) prev = prev\<lparr> weight := v \<rparr>"
| "handleInputChange (age_value v) prev = prev\<lparr> age := v \<rparr>"
| "handleInputChange (smokingStatus_value v) prev = prev\<lparr> smokingStatus := v \<rparr>"
| "handleInputChange (alcoholConsumption_value v) prev = prev\<lparr> alcoholConsumption := v \<rparr>"
| "handleInputChange (activityLevel_value v) prev = prev\<lparr> activityLevel := v \<rparr>"
| "handleInputChange (hasHypertension_value v) prev = prev\<lparr> hasHypertension := v \<rparr>"
| "handleInputChange (hasDiabetes_value v) prev = prev\<lparr> hasDiabetes := v \<rparr>"
| "handleInputChange (hasHighBP_value v) prev = prev\<lparr> hasHighBP := v \<rparr>"

datatype familyField = heartDisease_field | diabetes_field | hypertension_field

fun handleFamilyHistoryChange :: "familyField \<Rightarrow> bool \<Rightarrow> ProfileData \<Rightarrow> ProfileData" where
  "handleFamilyHistoryChange heartDisease_field v prev =
     prev\<lparr> familyHistory := (familyHistory prev)\<lparr> heartDisease := v \<rparr> \<rparr>"
| "handleFamilyHistoryChange diabetes_field v prev =
     prev\<lparr> familyHistory := (familyHistory prev)\<lparr> diabetes := v \<rparr> \<rparr>"
| "handleFamilyHistoryChange hypertension_field v prev =
     prev\<lparr> familyHistory := (familyHistory prev)\<lparr> hypertension := v \<rparr> \<rparr>"

text \<open>
  "Calculate risk score (simplified version)": the local variable \<open>riskScore\<close> of
  \<open>handleSubmit\<close>, statement by statement; a chain
  \<^verbatim>\<open>if (c1) riskScore += k1; else if (c2) riskScore += k2;\<close>
  adds the points of its first true condition, or nothing. The values of \<open>riskScore\<close> are
  small integers, which doubles hold exactly.
\<close>

definition calculateRiskScore :: "ProfileData \<Rightarrow> int" where
  "calculateRiskScore p =
     (let riskScore = 0;
          riskScore = riskScore + (if js_gt (age p) (Num 65) then 20
                                   else if js_gt (age p) (Num 45) then 15
                                   else if js_gt (age p) (Num 35) then 10
                                   else 0);
          riskScore = riskScore + (if js_ge (bmi p) (Num 30) then 25
                                   else if js_ge (bmi p) (Num 25) then 15
                                   else if js_lt (bmi p) (Num (37 / 2)) then 10
                                   else 0);
          riskScore = riskScore + (if smokingStatus p = current then 20
                                   else if smokingStatus p = former then 10
                                   else 0);
          riskScore = riskScore + (if alcoholConsumption p = heavy then 15
                                   else if alcoholConsumption p = moderate then 5
                                   else 0);
          riskScore = riskScore + (if activityLevel p = sedentary then 15
                                   else if activityLevel p = moderately_active then 5
                                   else 0);
          riskScore = riskScore + (if hasHypertension p then 20 else 0);
          riskScore = riskScore + (if hasDiabetes p then 25 else 0);
          riskScore = riskScore + (if hasHighBP p then 15 else 0);
          riskScore = riskScore + (if heartDisease (familyHistory p) then 10 else 0);
          riskScore = riskScore + (if diabetes (familyHistory p) then 10 else 0);
          riskScore = riskScore + (if hypertension (familyHistory p) then 8 else 0)
      in riskScore)"

text \<open>The points each statement of the calculation adds.\<close>

definition agePoints :: "jsnum \<Rightarrow> int" where
  "agePoints a =
     (if js_gt a (Num 65) then 20
      else if js_gt a (Num 45) then 15
      else if js_gt a (Num 35) then 10
      else 0)"

definition bmiPoints :: "jsnum \<Rightarrow> int" where
  "bmiPoints b =
     (if js_ge b (Num 30) then 25
      else if js_ge b (Num 25) then 15
      else if js_lt b (Num (37 / 2)) then 10
      else 0)"

definition smokingPoints :: "smokingStatus \<Rightarrow> int" where
  "smokingPoints x = (if x = current then 20 else if x = former then 10 else 0)"

definition alcoholPoints :: "alcoholConsumption \<Rightarrow> int" where
  "alcoholPoints x = (if x = heavy then 15 else if x = moderate then 5 else 0)"

definition activityPoints :: "activityLevel \<Rightarrow> int" where
  "activityPoints x = (if x = sedentary then 15 else if x = moderately_active then 5 else 0)"

definition flagPoints :: "int \<Rightarrow> bool \<Rightarrow> int" where
  "flagPoints k b = (if b then k else 0)"

text \<open>
  \<open>handleSubmit\<close> in two parts, split at its \<open>await\<close>. The first part runs at the
  submit event; the call then waits for the timer, holding the \<open>profileData\<close> of the render
  it was created in. The second part computes from that \<open>profileData\<close> and updates the
  state current at that time (\<open>setProfileData(prev => ...)\<close>).
\<close>

definition handleSubmit_start :: "ProfilePage \<Rightarrow> ProfilePage" where
  "handleSubmit_start s = s\<lparr> loading := True, submitted := Some (profileData s) \<rparr>"

definition handleSubmit_resume :: "ProfileData \<Rightarrow> ProfilePage \<Rightarrow> ProfilePage" where
  "handleSubmit_resume closure s =
     (let riskScore = calculateRiskScore closure;
          predicted = (if riskScore < 30 then low else if riskScore < 60 then medium else high)
      in s\<lparr> profileData :=
               (profileData s)\<lparr> healthRiskScore := Num (of_int (min riskScore 100)),
                                predictedRisk := predicted \<rparr>,
             toasts := toasts s @ [success ''Profile updated successfully!''],
             loading := False,
             submitted := None \<rparr>)"

text \<open>
  The events of the page, each one state update and the render that commits it: a change of
  a field, a submit of the form (the button is disabled while \<open>loading\<close>), the timer of
  the suspended \<open>handleSubmit\<close>, and the run of the oldest scheduled effect. The events
  interleave freely; in particular a handler may run while an effect is still scheduled.
\<close>

datatype event =
    Change input
  | ChangeFamilyHistory familyField bool
  | Submit
  | TimerFired
  | EffectRuns

definition changeInput :: "input \<Rightarrow> ProfilePage \<Rightarrow> ProfilePage" where
  "changeInput i s =
     render (profileData s) (s\<lparr> profileData := handleInputChange i (profileData s) \<rparr>)"

definition changeFamilyHistory :: "familyField \<Rightarrow> bool \<Rightarrow> ProfilePage \<Rightarrow> ProfilePage" where
  "changeFamilyHistory f v s =
     render (profileData s) (s\<lparr> profileData := handleFamilyHistoryChange f v (profileData s) \<rparr>)"

fun fire :: "event \<Rightarrow> ProfilePage \<Rightarrow> ProfilePage option" where
  "fire (Change i) s = Some (changeInput i s)"
| "fire (ChangeFamilyHistory f v) s = Some (changeFamilyHistory f v s)"
| "fire Submit s = (if loading s then None else Some (handleSubmit_start s))"
| "fire TimerFired s =
     (case submitted s of None \<Rightarrow> None | Some closure \<Rightarrow> Some (handleSubmit_resume closure s))"
| "fire EffectRuns s = (if pendingEffects s = [] then None else Some (runEffect s))"

fun run :: "event list \<Rightarrow> ProfilePage \<Rightarrow> ProfilePage option" where
  "run [] s = Some s"
| "run (e # es) s = (case fire e s of None \<Rightarrow> None | Some t \<Rightarrow> run es t)"

inductive reachable :: "jsnum option \<Rightarrow> ProfilePage \<Rightarrow> bool" for userAge where
  mounted: "reachable userAge (mount userAge)"
| fired: "reachable userAge s \<Longrightarrow> fire e s = Some t \<Longrightarrow> reachable userAge t"

text \<open>
  A submission that nothing interleaves with: the page holds \<open>p\<close>, the form is submitted
  and the timer fires. \<open>submitProfile p\<close> is the \<open>profileData\<close> afterwards.
\<close>

definition submitProfile :: "ProfileData \<Rightarrow> ProfileData" where
  "submitProfile p =
     profileData
       (handleSubmit_resume p
          (handleSubmit_start
             \<lparr> profileData = p, loading = False, submitted = None, pendingEffects = [],
               toasts = [] \<rparr>))"

text \<open>
  The evaluation of a profile: the BMI effect on its height and weight, then a submission.
  The derived values are the \<open>bmi\<close>, \<open>healthRiskScore\<close> and \<open>predictedRisk\<close> fields of the
  result.
\<close>

record DerivedMetrics =
  bmi_metric :: jsnum
  riskScore_metric :: jsnum
  riskCategory_metric :: predictedRisk

definition evaluate :: "ProfileData \<Rightarrow> DerivedMetrics" where
  "evaluate p =
     (let r = submitProfile (bmiEffect p p)
      in \<lparr> bmi_metric = bmi r,
           riskScore_metric = healthRiskScore r,
           riskCategory_metric = predictedRisk r \<rparr>)"

text \<open>The value objects that both \<open>getRiskLevel\<close> functions return.\<close>

record RiskLevel =
  level :: string
  color :: string
  bg :: string

text \<open>\<open>getRiskLevel\<close> of the profile page.\<close>

definition getRiskLevel :: "jsnum \<Rightarrow> RiskLevel" where
  "getRiskLevel score =
     (if js_lt score (Num 30)
      then \<lparr> level = ''Low'', color = ''text-green-600'', bg = ''bg-green-50'' \<rparr>
      else if js_lt score (Num 60)
      then \<lparr> level = ''Medium'', color = ''text-yellow-600'', bg = ''bg-yellow-50'' \<rparr>
      else \<lparr> level = ''High'', color = ''text-red-600'', bg = ''bg-red-50'' \<rparr>)"

section \<open>The dashboard page\<close>

text \<open>\<open>getRiskLevel\<close> of the dashboard page.\<close>

definition DashboardPage_getRiskLevel :: "jsnum \<Rightarrow> RiskLevel" where
  "DashboardPage_getRiskLevel score =
     (if js_lt score (Num 30)
      then \<lparr> level = ''Low'', color = ''text-green-600'', bg = ''bg-green-50'' \<rparr>
      else if js_lt score (Num 60)
      then \<lparr> level = ''Medium'', color = ''text-yellow-600'', bg = ''bg-yellow-50'' \<rparr>
      else \<lparr> level = ''High'', color = ''text-red-600'', bg = ''bg-red-50'' \<rparr>)"

section \<open>The authentication context\<close>

text \<open>
  The state that \<open>login\<close> reads and writes: the \<open>user\<close> and \<open>loading\<close> state variables of
  \<open>AuthProvider\<close> (the latter named \<open>authLoading\<close> here), \<open>localStorage\<close>, the default
  headers of axios, and the toasts shown. The type of users is a parameter: \<open>login\<close> only
  passes the user on.
\<close>

record 'u AuthContext =
  user :: "'u option"
  authLoading :: bool
  localStorage :: "string \<rightharpoonup> string"
  headers_common :: "string \<rightharpoonup> string"
  authToasts :: "toast list"

text \<open>
  What \<open>await axios.post(...)\<close> yields. \<open>Rejected m\<close>: the promise rejects, \<open>m\<close> being
  \<open>error.response?.data?.message\<close> when there is one. \<open>Response ok d m\<close>: it resolves with
  \<open>response.data.success = ok\<close>, \<open>response.data.data = d\<close> (a user and a token, or
  absent) and \<open>response.data.message = m\<close>.
\<close>

datatype 'u post_result =
    Rejected "string option"
  | Response bool "('u \<times> string) option" "string option"

text \<open>\<open>m || fallback\<close> on an optional string: an absent or empty \<open>m\<close> is falsy.\<close>

fun or_else :: "string option \<Rightarrow> string \<Rightarrow> string" where
  "or_else None fallback = fallback"
| "or_else (Some m) fallback = (if m = [] then fallback else m)"

text \<open>
  \<open>login\<close>, given what the request yields: the value the promise resolves to and the state
  afterwards. Destructuring an absent \<open>response.data.data\<close> throws a TypeError, which the
  \<open>catch\<close> block handles like a rejected request without a message. The \<open>finally\<close> block
  runs on every path.
\<close>

fun login :: "string \<Rightarrow> string \<Rightarrow> 'u post_result \<Rightarrow> 'u AuthContext \<Rightarrow> bool \<times> 'u AuthContext" where
  "login email password (Response True (Some (u, token)) m) s =
     (True,
      s\<lparr> user := Some u,
         localStorage := (localStorage s)(''vitalae_token'' \<mapsto> token),
         headers_common := (headers_common s)(''Authorization'' \<mapsto> ''Bearer '' @ token),
         authToasts := authToasts s @ [success ''Login successful!''],
         authLoading := False \<rparr>)"
| "login email password (Response True None m) s =
     (False,
      s\<lparr> authToasts := authToasts s @ [error ''Login failed. Please try again.''],
         authLoading := False \<rparr>)"
| "login email password (Response False d m) s =
     (False,
      s\<lparr> authToasts := authToasts s @ [error (or_else m ''Login failed'')],
         authLoading := False \<rparr>)"
| "login email password (Rejected m) s =
     (False,
      s\<lparr> authToasts := authToasts s @ [error (or_else m ''Login failed. Please try again.'')],
         authLoading := False \<rparr>)"

section \<open>The specification's risk table\<close>

text \<open>
  The point table as the specification words it: rows of a factor group are tried top to
  bottom and the first whose condition holds gives the points of the group; the groups are
  summed and the sum is capped at 100. The points of the family heart-disease row are a
  parameter of the table.
\<close>

fun first_match :: "(bool \<times> int) list \<Rightarrow> int" where
  "first_match [] = 0"
| "first_match ((condition, points) # rows) = (if condition then points else first_match rows)"

definition table_groups :: "int \<Rightarrow> ProfileData \<Rightarrow> int list" where
  "table_groups heartDiseasePoints p =
     [ first_match [ (js_gt (age p) (Num 65), 20),
                     (js_lt (Num 45) (age p) \<and> js_ge (Num 65) (age p), 15),
                     (js_lt (Num 35) (age p) \<and> js_ge (Num 45) (age p), 10) ],
       first_match [ (js_ge (bmi p) (Num 30), 25),
                     (js_ge (bmi p) (Num 25) \<and> js_lt (bmi p) (Num 30), 15),
                     (js_lt (bmi p) (Num (37 / 2)), 10) ],
       first_match [ (smokingStatus p = current, 20), (smokingStatus p = former, 10) ],
       first_match [ (alcoholConsumption p = heavy, 15), (alcoholConsumption p = moderate, 5) ],
       first_match [ (activityLevel p = sedentary, 15),
                     (activityLevel p = moderately_active, 5) ],
       first_match [ (hasHypertension p, 20) ],
       first_match [ (hasDiabetes p, 25) ],
       first_match [ (hasHighBP p, 15) ],
       first_match [ (heartDisease (familyHistory p), heartDiseasePoints) ],
       first_match [ (diabetes (familyHistory p), 10) ],
       first_match [ (hypertension (familyHistory p), 8) ] ]"

definition table_score :: "int \<Rightarrow> ProfileData \<Rightarrow> int" where
  "table_score heartDiseasePoints p = min (sum_list (table_groups heartDiseasePoints p)) 100"

text \<open>The category as the specification words it, on the stored score, and its label.\<close>

definition riskCategory :: "jsnum \<Rightarrow> predictedRisk" where
  "riskCategory score =
     (if js_lt score (Num 30) then low
      else if js_ge score (Num 30) \<and> js_lt score (Num 60) then medium
      else high)"

fun riskLabel :: "predictedRisk \<Rightarrow> string" where
  "riskLabel low = ''Low''"
| "riskLabel medium = ''Medium''"
| "riskLabel high = ''High''"

text \<open>
  The BMI as the specification words it: the exact quotient \<open>weightKg / (heightCm/100)^2\<close>,
  and its rounding to one decimal, in tenths (a tie goes up, as in \<open>toFixed\<close>).
  \<open>near_rounding_boundary x\<close> holds when a value within \<open>10^-12\<close> of \<open>x\<close> rounds to a
  different tenth than another.
\<close>

definition exact_bmi :: "rat \<Rightarrow> rat \<Rightarrow> rat" where
  "exact_bmi heightCm weightKg = weightKg / (heightCm / 100) ^ 2"

definition round1 :: "rat \<Rightarrow> int" where
  "round1 x = \<lfloor>10 * x + 1 / 2\<rfloor>"

definition near_rounding_boundary :: "rat \<Rightarrow> bool" where
  "near_rounding_boundary x = (round1 (x - 1 / 10 ^ 12) \<noteq> round1 (x + 1 / 10 ^ 12))"

text \<open>
  Concrete pages used below. \<open>mountedPage\<close> is the page after the first render and its
  effect. The others are that page after one change: the family heart-disease box ticked,
  the weight set to 50 or to 60 and the effect run, the diabetes box ticked, and the height
  set to 180 with the effect still to run.
\<close>

definition mountedPage :: ProfilePage where
  "mountedPage = runEffect (mount None)"

definition heartDiseaseTicked :: ProfileData where
  "heartDiseaseTicked = profileData (changeFamilyHistory heartDisease_field True mountedPage)"

definition lightWeight :: ProfilePage where
  "lightWeight = runEffect (changeInput (weight_value (Num 50)) mountedPage)"

definition heavierWeight :: ProfilePage where
  "heavierWeight = runEffect (changeInput (weight_value (Num 60)) mountedPage)"

definition diabetesTicked :: ProfilePage where
  "diabetesTicked = changeInput (hasDiabetes_value True) mountedPage"

definition heightTyped :: ProfilePage where
  "heightTyped = changeInput (height_value (Num 180)) mountedPage"

text \<open>The values of the three enumerated factors, ranked by the risk they stand for.\<close>

fun smokingRisk :: "smokingStatus \<Rightarrow> nat" where
  "smokingRisk never = 0"
| "smokingRisk former = 1"
| "smokingRisk current = 2"

fun alcoholRisk :: "alcoholConsumption \<Rightarrow> nat" where
  "alcoholRisk none = 0"
| "alcoholRisk moderate = 1"
| "alcoholRisk heavy = 2"

fun activityRisk :: "activityLevel \<Rightarrow> nat" where
  "activityRisk active = 0"
| "activityRisk moderately_active = 1"
| "activityRisk sedentary = 2"

text \<open>
  Two profiles with the same input fields; the derived fields \<open>bmi\<close>, \<open>healthRiskScore\<close>
  and \<open>predictedRisk\<close> may differ.
\<close>

definition same_inputs :: "ProfileData \<Rightarrow> ProfileData \<Rightarrow> bool" where
  "same_inputs p q =
     (height p = height q \<and> weight p = weight q \<and> age p = age q
      \<and> smokingStatus p = smokingStatus q \<and> alcoholConsumption p = alcoholConsumption q
      \<and> activityLevel p = activityLevel q \<and> hasHypertension p = hasHypertension q
      \<and> hasDiabetes p = hasDiabetes q \<and> hasHighBP p = hasHighBP q
      \<and> familyHistory p = familyHistory q)"

text \<open>A login that fails: the request is rejected, or the response has \<open>success\<close> false.\<close>

definition login_failed :: "'u post_result \<Rightarrow> bool" where
  "login_failed r = (case r of Rejected m \<Rightarrow> True | Response ok d m \<Rightarrow> \<not> ok)"

text \<open>A profile with every risk factor present.\<close>

definition allFactors :: ProfileData where
  "allFactors =
     \<lparr> height = Num 170, weight = Num 70, age = Num 70, bmi = Num 31,
       smokingStatus = current, alcoholConsumption = heavy, activityLevel = sedentary,
       hasHypertension = True, hasDiabetes = True, hasHighBP = True,
       familyHistory = \<lparr> heartDisease = True, diabetes = True, hypertension = True \<rparr>,
       healthRiskScore = Num 25, predictedRisk = low \<rparr>"

text \<open>The authentication state before anyone has logged in, with strings as users.\<close>

definition loggedOut :: "string AuthContext" where
  "loggedOut =
     \<lparr> user = None, authLoading = False, localStorage = Map.empty,
       headers_common = Map.empty, authToasts = [] \<rparr>"

section \<open>Rounding: auxiliary facts\<close>

lemma bit_length_nonneg: "0 \<le> bit_length n"
  by (induction n rule: bit_length.induct) (subst bit_length.simps, simp)

lemma bit_length_pos: "0 < n \<Longrightarrow> 1 \<le> bit_length n"
  using bit_length_nonneg [of "n div 2"] by (subst bit_length.simps) simp

lemma bit_length_bounds:
  "0 < n \<Longrightarrow> 2 ^ nat (bit_length n - 1) \<le> n \<and> n < 2 ^ nat (bit_length n)"
proof (induction n rule: bit_length.induct)
  case (1 n)
  show ?case
  proof (cases "n = 1")
    case True
    then show ?thesis by (simp add: bit_length.simps)
  next
    case False
    with "1.prems" have h: "0 < n div 2" by simp
    from "1.IH" "1.prems" h have ih: "2 ^ nat (bit_length (n div 2) - 1) \<le> n div 2"
      "n div 2 < 2 ^ nat (bit_length (n div 2))" by simp_all
    have bl: "bit_length n = 1 + bit_length (n div 2)"
      using "1.prems" by (subst bit_length.simps) simp
    have p: "1 \<le> bit_length (n div 2)" using h by (rule bit_length_pos)
    have e1: "nat (bit_length n - 1) = Suc (nat (bit_length (n div 2) - 1))"
      using p bl by simp
    have e2: "nat (bit_length n) = Suc (nat (bit_length (n div 2)))"
      using p bl by simp
    show ?thesis unfolding e1 e2 using ih by simp linarith
  qed
qed

lemma powi_nat: "0 \<le> k \<Longrightarrow> (2::rat) powi k = 2 ^ nat k"
  by (simp add: power_int_def)

lemma powi_pos: "0 < (2::rat) powi k"
  by simp

lemma powi_mono: "a \<le> b \<Longrightarrow> (2::rat) powi a \<le> 2 powi b"
  by (simp add: power_int_increasing)

lemma powi_strict_mono: "a < b \<Longrightarrow> (2::rat) powi a < 2 powi b"
  by (simp add: power_int_strict_increasing)

lemma floor_log2_bounds:
  assumes "0 < x"
  shows "2 powi (floor_log2 x) \<le> x \<and> x < 2 powi (floor_log2 x + 1)"
proof (cases "1 \<le> x")
  case True
  define n where "n = \<lfloor>x\<rfloor>"
  have n: "1 \<le> n" using True by (simp add: n_def le_floor_iff)
  have k: "1 \<le> bit_length n" using n by (intro bit_length_pos) simp
  have b: "2 ^ nat (bit_length n - 1) \<le> n" "n < 2 ^ nat (bit_length n)"
    using bit_length_bounds [of n] n by simp_all
  have e: "floor_log2 x = bit_length n - 1" using True by (simp add: floor_log2_def n_def)
  have "(2::rat) powi (bit_length n - 1) = of_int (2 ^ nat (bit_length n - 1))"
    using k by (simp add: powi_nat)
  also have "\<dots> \<le> of_int n" using b(1) by (simp only: of_int_le_iff)
  also have "\<dots> \<le> x" by (simp add: n_def)
  finally have lo: "2 powi (floor_log2 x) \<le> x" by (simp add: e)
  have "n + 1 \<le> 2 ^ nat (bit_length n)" using b(2) by simp
  then have "(of_int (n + 1) :: rat) \<le> of_int (2 ^ nat (bit_length n))"
    by (simp only: of_int_le_iff)
  moreover have "x < of_int (n + 1)" unfolding n_def by (simp, linarith)
  moreover have "(2::rat) powi (bit_length n) = of_int (2 ^ nat (bit_length n))"
    using k by (simp add: powi_nat)
  ultimately have hi: "x < 2 powi (floor_log2 x + 1)" by (simp add: e)
  show ?thesis using lo hi by simp
next
  case False
  define y where "y = 1 / x"
  define m where "m = \<lceil>y\<rceil> - 1"
  have y1: "1 < y" using False assms by (simp add: y_def)
  have m: "1 \<le> m" using y1 by (simp add: m_def less_ceiling_iff)
  have my: "of_int m < y" "y \<le> of_int (m + 1)"
    by (simp_all add: m_def) (linarith)
  have k: "1 \<le> bit_length m" using m by (intro bit_length_pos) simp
  have b: "2 ^ nat (bit_length m - 1) \<le> m" "m < 2 ^ nat (bit_length m)"
    using bit_length_bounds [of m] m by simp_all
  have e: "floor_log2 x = - bit_length m" using False by (simp add: floor_log2_def m_def y_def)
  have "m + 1 \<le> 2 ^ nat (bit_length m)" using b(2) by simp
  then have "(of_int (m + 1) :: rat) \<le> of_int (2 ^ nat (bit_length m))"
    by (simp only: of_int_le_iff)
  moreover have "(2::rat) powi (bit_length m) = of_int (2 ^ nat (bit_length m))"
    using k by (simp add: powi_nat)
  ultimately have yk: "y \<le> 2 powi (bit_length m)" using my(2) by linarith
  have "(of_int (2 ^ nat (bit_length m - 1)) :: rat) \<le> of_int m"
    using b(1) by (simp only: of_int_le_iff)
  moreover have "(2::rat) powi (bit_length m - 1) = of_int (2 ^ nat (bit_length m - 1))"
    using k by (simp add: powi_nat)
  ultimately have yk': "2 powi (bit_length m - 1) < y" using my(1) by linarith
  have x: "x = 1 / y" using assms by (simp add: y_def)
  have lo: "2 powi (- bit_length m) \<le> x"
    unfolding x power_int_minus using yk y1
    by (simp add: field_simps)
  have hi: "x < 2 powi (- bit_length m + 1)"
  proof -
    have "2 powi (- bit_length m + 1) = 1 / ((2::rat) powi (bit_length m - 1))"
      by (simp add: power_int_diff power_int_add power_int_minus field_simps)
    moreover have "1 / y < 1 / ((2::rat) powi (bit_length m - 1))"
      using yk' by (simp add: frac_less2)
    ultimately show ?thesis by (simp add: x)
  qed
  show ?thesis using lo hi by (simp add: e)
qed

lemma floor_log2_unique:
  assumes "2 powi e \<le> x" "x < 2 powi (e + 1)"
  shows "floor_log2 x = e"
proof -
  have x: "0 < x" using assms(1) powi_pos [of e] by linarith
  note b = floor_log2_bounds [OF x]
  have "\<not> floor_log2 x + 1 \<le> e"
  proof
    assume "floor_log2 x + 1 \<le> e"
    then have "(2::rat) powi (floor_log2 x + 1) \<le> 2 powi e" by (rule powi_mono)
    with b assms show False by linarith
  qed
  moreover have "\<not> e + 1 \<le> floor_log2 x"
  proof
    assume "e + 1 \<le> floor_log2 x"
    then have "(2::rat) powi (e + 1) \<le> 2 powi (floor_log2 x)" by (rule powi_mono)
    with b assms show False by linarith
  qed
  ultimately show ?thesis by linarith
qed

lemma round_half_even_bounds:
  "\<bar>of_int (round_half_even y) - y\<bar> \<le> 1 / 2"
proof -
  have "of_int \<lfloor>y\<rfloor> \<le> y" "y < of_int \<lfloor>y\<rfloor> + 1" by linarith+
  then show ?thesis
    by (auto simp: round_half_even_def Let_def abs_le_iff)
qed

lemma round_half_even_eq:
  assumes "of_int m - 1 / 2 < y" "y < of_int m + 1 / 2"
  shows "round_half_even y = m"
proof -
  have f: "of_int \<lfloor>y\<rfloor> \<le> y" "y < of_int \<lfloor>y\<rfloor> + 1" by linarith+
  have "\<lfloor>y\<rfloor> = m \<or> \<lfloor>y\<rfloor> = m - 1"
  proof -
    have "of_int \<lfloor>y\<rfloor> < (of_int m + 1 :: rat)" using f assms by linarith
    then have "of_int \<lfloor>y\<rfloor> < (of_int (m + 1) :: rat)" by simp
    then have 1: "\<lfloor>y\<rfloor> < m + 1" by (simp only: of_int_less_iff)
    have "(of_int m - 2 :: rat) < of_int \<lfloor>y\<rfloor>" using f assms by linarith
    then have "(of_int (m - 2) :: rat) < of_int \<lfloor>y\<rfloor>" by simp
    then have 2: "m - 2 < \<lfloor>y\<rfloor>" by (simp only: of_int_less_iff)
    from 1 2 show ?thesis by linarith
  qed
  then show ?thesis
  proof
    assume e: "\<lfloor>y\<rfloor> = m"
    with assms f show ?thesis by (simp add: round_half_even_def Let_def)
  next
    assume e: "\<lfloor>y\<rfloor> = m - 1"
    with assms f show ?thesis by (simp add: round_half_even_def Let_def)
  qed
qed


lemma fl_normal_eq:
  assumes x: "x \<noteq> 0"
    and e: "2 powi e \<le> \<bar>x\<bar>" "\<bar>x\<bar> < 2 powi (e + 1)" "- 1022 \<le> e" "e \<le> 1022"
    and m: "of_int m - 1 / 2 < \<bar>x\<bar> / 2 powi (e - 52)" "\<bar>x\<bar> / 2 powi (e - 52) < of_int m + 1 / 2"
  shows "fl x = Num (if 0 < x then of_int m * 2 powi (e - 52) else - (of_int m * 2 powi (e - 52)))"
proof -
  have fe: "floor_log2 \<bar>x\<bar> = e" using e(1,2) by (rule floor_log2_unique)
  have mx: "max (floor_log2 \<bar>x\<bar>) (- 1022) = e" using fe e(3) by simp
  have r: "round_half_even (\<bar>x\<bar> / 2 powi (e - 52)) = m" using m by (rule round_half_even_eq)
  have q: "(2::rat) powi (e + 1) = 2 powi (e - 52) * 2 ^ 53"
    by (simp add: power_int_add power_int_diff)
  have "\<bar>x\<bar> / 2 powi (e - 52) < 2 ^ 53"
    using e(2) unfolding q by (simp add: field_simps)
  with m(1) have "(of_int m :: rat) < 2 ^ 53 + 1 / 2" by linarith
  then have "(of_int m :: rat) < of_int (2 ^ 53 + 1)" by simp
  then have "m < 2 ^ 53 + 1" by (simp only: of_int_less_iff)
  then have "m \<le> 2 ^ 53" by simp
  then have "(of_int m :: rat) \<le> of_int (2 ^ 53)" by (simp only: of_int_le_iff)
  then have "(of_int m :: rat) \<le> 2 ^ 53" by simp
  then have "of_int m * (2::rat) powi (e - 52) \<le> 2 ^ 53 * 2 powi (e - 52)"
    by (simp add: mult_right_mono)
  also have "\<dots> = 2 powi (e + 1)" by (simp add: q)
  also have "\<dots> \<le> 2 powi 1023" using e(4) by (intro powi_mono) simp
  also have "\<dots> < 2 powi 1024" by (intro powi_strict_mono) simp
  finally have no: "\<not> 2 powi 1024 \<le> of_int m * (2::rat) powi (e - 52)" by simp
  show ?thesis
    unfolding fl_def Let_def mx r using x no by simp
qed


lemma fl_242_10: "fl (242 / 10) = Num (6811694436397875 / 2 ^ 48)"
  by (simp add: fl_normal_eq [of _ 4 6811694436397875])

lemma fl_121_5: "fl (121 / 5) = Num (6811694436397875 / 2 ^ 48)"
  using fl_242_10 by simp

lemma calcBmi_170_70: "calcBmi (Num 170) (Num 70) = fl (242 / 10)"
proof -
  have 1: "js_div (Num 170) (Num 100) = Num (7656119366529843 / 2 ^ 52)"
    by (simp add: fl_normal_eq [of _ 0 7656119366529843])
  have 2: "js_mul (Num (7656119366529843 / 2 ^ 52)) (Num (7656119366529843 / 2 ^ 52))
             = Num (6507701461550366 / 2 ^ 51)"
    by (simp add: fl_normal_eq [of _ 1 6507701461550366])
  have 3: "js_div (Num 70) (Num (6507701461550366 / 2 ^ 51)) = Num (6817732999912084 / 2 ^ 48)"
    by (simp add: fl_normal_eq [of _ 4 6817732999912084])
  have 4: "toFixed1 (Num (6817732999912084 / 2 ^ 48)) = Tenths 242"
    by (simp add: floor_eq_iff)
  show ?thesis
    unfolding calcBmi_def Let_def 1 2 3 4 by simp
qed

lemma fl_187_10: "fl (187 / 10) = Num (5263582064489267 / 2 ^ 48)"
  by (simp add: fl_normal_eq [of _ 4 5263582064489267])

lemma calcBmi_160_48: "calcBmi (Num 160) (Num 48) = fl (187 / 10)"
proof -
  have 1: "js_div (Num 160) (Num 100) = Num (7205759403792794 / 2 ^ 52)"
    by (simp add: fl_normal_eq [of _ 0 7205759403792794])
  have 2: "js_mul (Num (7205759403792794 / 2 ^ 52)) (Num (7205759403792794 / 2 ^ 52))
             = Num (5764607523034236 / 2 ^ 51)"
    by (simp add: fl_normal_eq [of _ 1 5764607523034236])
  have 3: "js_div (Num 48) (Num (5764607523034236 / 2 ^ 51)) = Num (5277655813324799 / 2 ^ 48)"
    by (simp add: fl_normal_eq [of _ 4 5277655813324799])
  have 4: "toFixed1 (Num (5277655813324799 / 2 ^ 48)) = Tenths 187"
    by (simp add: floor_eq_iff)
  show ?thesis
    unfolding calcBmi_def Let_def 1 2 3 4 by simp
qed

lemma fl_rel:
  assumes "2 powi (- 1022) \<le> x" "x < 2 powi 1023"
  shows "\<exists>y. fl x = Num y \<and> (1 - 1 / 2 ^ 53) * x \<le> y \<and> y \<le> (1 + 1 / 2 ^ 53) * x"
proof -
  have x: "0 < x" using assms(1) powi_pos [of "- 1022"] by linarith
  define e where "e = floor_log2 x"
  have b: "2 powi e \<le> x" "x < 2 powi (e + 1)"
    using floor_log2_bounds [OF x] by (simp_all add: e_def)
  have lo: "- 1022 \<le> e"
  proof (rule ccontr)
    assume "\<not> - 1022 \<le> e"
    then have "e + 1 \<le> - 1022" by simp
    then have "(2::rat) powi (e + 1) \<le> 2 powi (- 1022)" by (rule powi_mono)
    with b(2) assms(1) show False by linarith
  qed
  have hi: "e \<le> 1022"
  proof (rule ccontr)
    assume "\<not> e \<le> 1022"
    then have "1023 \<le> e" by simp
    then have "(2::rat) powi 1023 \<le> 2 powi e" by (rule powi_mono)
    with b(1) assms(2) show False by linarith
  qed
  define q where "q = (2::rat) powi (e - 52)"
  have q: "0 < q" by (simp add: q_def)
  define m where "m = round_half_even (x / q)"
  have "\<bar>of_int m - x / q\<bar> \<le> 1 / 2" unfolding m_def by (rule round_half_even_bounds)
  then have "\<bar>of_int m - x / q\<bar> * q \<le> 1 / 2 * q" using q by (simp add: mult_right_mono)
  moreover have "\<bar>of_int m - x / q\<bar> * q = \<bar>(of_int m - x / q) * q\<bar>"
    using q by (simp add: abs_mult)
  moreover have "(of_int m - x / q) * q = of_int m * q - x"
    using q by (simp add: field_simps)
  ultimately have d: "\<bar>of_int m * q - x\<bar> \<le> q / 2" by simp
  have qe: "q = 2 powi e / 2 ^ 52" by (simp add: q_def power_int_diff)
  have qx: "q / 2 \<le> x / 2 ^ 53" using b(1) by (simp add: qe field_simps)
  have r: "\<bar>of_int m * q - x\<bar> \<le> x / 2 ^ 53" using d qx by linarith
  have "of_int m * q \<le> x + x / 2 ^ 53" using r by linarith
  also have "\<dots> \<le> 2 * x" using x by simp
  also have "\<dots> < 2 * 2 powi 1023" using assms(2) by simp
  also have "\<dots> = 2 powi 1024" by simp
  finally have no: "\<not> 2 powi 1024 \<le> of_int m * q" by simp
  have mx: "max (floor_log2 \<bar>x\<bar>) (- 1022) = e" using lo x by (simp add: e_def)
  have "fl x = Num (of_int m * q)"
    unfolding fl_def Let_def mx using x no by (simp add: q_def m_def)
  moreover have "x - x / 2 ^ 53 \<le> of_int m * q" "of_int m * q \<le> x + x / 2 ^ 53"
    using r by linarith+
  moreover have "(1 - 1 / 2 ^ 53) * x = x - x / 2 ^ 53" "(1 + 1 / 2 ^ 53) * x = x + x / 2 ^ 53"
    by (simp_all add: left_diff_distrib distrib_right)
  ultimately show ?thesis by auto
qed


lemma fl_173_10: "fl (173 / 10) = Num (4869517097094349 / 2 ^ 48)"
  by (simp add: fl_normal_eq [of _ 4 4869517097094349])

lemma calcBmi_170_50: "calcBmi (Num 170) (Num 50) = Num (4869517097094349 / 2 ^ 48)"
proof -
  have 1: "js_div (Num 170) (Num 100) = Num (7656119366529843 / 2 ^ 52)"
    by (simp add: fl_normal_eq [of _ 0 7656119366529843])
  have 2: "js_mul (Num (7656119366529843 / 2 ^ 52)) (Num (7656119366529843 / 2 ^ 52))
             = Num (6507701461550366 / 2 ^ 51)"
    by (simp add: fl_normal_eq [of _ 1 6507701461550366])
  have 3: "js_div (Num 50) (Num (6507701461550366 / 2 ^ 51)) = Num (4869809285651488 / 2 ^ 48)"
    by (simp add: fl_normal_eq [of _ 4 4869809285651488])
  have 4: "toFixed1 (Num (4869809285651488 / 2 ^ 48)) = Tenths 173"
    by (simp add: floor_eq_iff)
  have 5: "Number (Tenths 173) = Num (4869517097094349 / 2 ^ 48)"
    using fl_173_10 by simp
  show ?thesis
    unfolding calcBmi_def Let_def 1 2 3 4 5 by (rule refl)
qed

lemma fl_208_10: "fl (208 / 10) = Num (5854679515581645 / 2 ^ 48)"
  by (simp add: fl_normal_eq [of _ 4 5854679515581645])

lemma fl_104_5: "fl (104 / 5) = Num (5854679515581645 / 2 ^ 48)"
  using fl_208_10 by simp

lemma calcBmi_170_60: "calcBmi (Num 170) (Num 60) = Num (5854679515581645 / 2 ^ 48)"
proof -
  have 1: "js_div (Num 170) (Num 100) = Num (7656119366529843 / 2 ^ 52)"
    by (simp add: fl_normal_eq [of _ 0 7656119366529843])
  have 2: "js_mul (Num (7656119366529843 / 2 ^ 52)) (Num (7656119366529843 / 2 ^ 52))
             = Num (6507701461550366 / 2 ^ 51)"
    by (simp add: fl_normal_eq [of _ 1 6507701461550366])
  have 3: "js_div (Num 60) (Num (6507701461550366 / 2 ^ 51)) = Num (5843771142781786 / 2 ^ 48)"
    by (simp add: fl_normal_eq [of _ 4 5843771142781786])
  have 4: "toFixed1 (Num (5843771142781786 / 2 ^ 48)) = Tenths 208"
    by (simp add: floor_eq_iff)
  have 5: "Number (Tenths 208) = Num (5854679515581645 / 2 ^ 48)"
    using fl_208_10 by simp
  show ?thesis
    unfolding calcBmi_def Let_def 1 2 3 4 5 by (rule refl)
qed

lemma fl_216_10: "fl (216 / 10) = Num (6079859496950170 / 2 ^ 48)"
  by (simp add: fl_normal_eq [of _ 4 6079859496950170])

lemma fl_108_5: "fl (108 / 5) = Num (6079859496950170 / 2 ^ 48)"
  using fl_216_10 by simp

lemma calcBmi_180_70: "calcBmi (Num 180) (Num 70) = Num (6079859496950170 / 2 ^ 48)"
proof -
  have 1: "js_div (Num 180) (Num 100) = Num (8106479329266893 / 2 ^ 52)"
    by (simp add: fl_normal_eq [of _ 0 8106479329266893])
  have 2: "js_mul (Num (8106479329266893 / 2 ^ 52)) (Num (8106479329266893 / 2 ^ 52))
             = Num (7295831396340204 / 2 ^ 51)"
    by (simp add: fl_normal_eq [of _ 1 7295831396340204])
  have 3: "js_div (Num 70) (Num (7295831396340204 / 2 ^ 51)) = Num (6081249496835160 / 2 ^ 48)"
    by (simp add: fl_normal_eq [of _ 4 6081249496835160])
  have 4: "toFixed1 (Num (6081249496835160 / 2 ^ 48)) = Tenths 216"
    by (simp add: floor_eq_iff)
  have 5: "Number (Tenths 216) = Num (6079859496950170 / 2 ^ 48)"
    using fl_216_10 by simp
  show ?thesis
    unfolding calcBmi_def Let_def 1 2 3 4 5 by (rule refl)
qed

section \<open>The BMI: auxiliary facts\<close>

lemma fl_rel_mid:
  assumes "1 / 2 \<le> x" "x \<le> 1000"
  shows "\<exists>y. fl x = Num y \<and> (1 - 1 / 2 ^ 53) * x \<le> y \<and> y \<le> (1 + 1 / 2 ^ 53) * x"
proof (rule fl_rel)
  have "(2::rat) powi (- 1022) \<le> 1 / 2" by (simp add: power_int_minus field_simps)
  with assms(1) show "2 powi (- 1022) \<le> x" by linarith
  have "(1000::rat) < 2 powi 1023" by simp
  with assms(2) show "x < 2 powi 1023" by linarith
qed

lemma c_up_num: "1 + 1 / 2 ^ 53 \<le> (1 + 5 / 2 ^ 53) * ((1 - 1 / 2 ^ 53) * ((1 - 1 / 2 ^ 53) * (1 - 1 / 2 ^ 53 :: rat)))"
  by simp

lemma c_dn_num: "(1 - 5 / 2 ^ 53) * ((1 + 1 / 2 ^ 53) * ((1 + 1 / 2 ^ 53) * (1 + 1 / 2 ^ 53 :: rat))) \<le> 1 - 1 / 2 ^ 53"
  by simp

lemma rel_error_up:
  fixes A B :: rat
  assumes "A = 1 - 1 / 2 ^ 53" "B = 1 + 1 / 2 ^ 53"
  shows "B / A ^ 3 \<le> 1 + 5 / 2 ^ 53"
proof -
  have "0 < A" using assms by simp
  then have "0 < A ^ 3" by simp
  moreover have "B \<le> (1 + 5 / 2 ^ 53) * A ^ 3"
    unfolding power3_eq_cube assms using c_up_num by (simp only: mult.assoc)
  ultimately show ?thesis by (simp only: pos_divide_le_eq)
qed

lemma rel_error_down:
  fixes A B :: rat
  assumes "A = 1 - 1 / 2 ^ 53" "B = 1 + 1 / 2 ^ 53"
  shows "1 - 5 / 2 ^ 53 \<le> A / B ^ 3"
proof -
  have "0 < B" using assms by simp
  then have "0 < B ^ 3" by simp
  moreover have "(1 - 5 / 2 ^ 53) * B ^ 3 \<le> A"
    unfolding power3_eq_cube assms using c_dn_num by (simp only: mult.assoc)
  ultimately show ?thesis by (simp only: pos_le_divide_eq)
qed

lemma quotient_error:
  fixes h w :: rat
  assumes h: "100 \<le> h" "h \<le> 250" and w: "20 \<le> w" "w \<le> 300"
  shows "\<exists>q. js_div (Num w) (js_mul (js_div (Num h) (Num 100)) (js_div (Num h) (Num 100))) = Num q
             \<and> 1 \<le> q \<and> q \<le> 500 \<and> \<bar>q - exact_bmi h w\<bar> \<le> 1 / 5000000000000"
proof -
  define A :: rat where "A = 1 - 1 / 2 ^ 53"
  define B :: rat where "B = 1 + 1 / 2 ^ 53"
  have A: "0 < A" "9 / 10 \<le> A" "A \<le> 1" by (simp_all add: A_def)
  have B: "1 \<le> B" "B \<le> 11 / 10" "0 < B" by (simp_all add: B_def)
  define x0 where "x0 = h / 100"
  have x0: "1 \<le> x0" "x0 \<le> 5 / 2" using h by (simp_all add: x0_def)
  obtain x1 where x1: "fl x0 = Num x1" "A * x0 \<le> x1" "x1 \<le> B * x0"
    using fl_rel_mid [of x0] x0 unfolding A_def B_def by auto
  have "9 / 10 * 1 \<le> A * x0" using A x0 by (intro mult_mono) simp_all
  with x1 have x1lo: "9 / 10 \<le> x1" by simp
  have "B * x0 \<le> 11 / 10 * (5 / 2)" using B x0 by (intro mult_mono) simp_all
  with x1 have x1hi: "x1 \<le> 3" by simp
  define p0 where "p0 = x1 * x1"
  have p0lo: "9 / 10 * (9 / 10) \<le> p0" unfolding p0_def using x1lo by (intro mult_mono) simp_all
  have p0hi: "p0 \<le> 3 * 3" unfolding p0_def using x1hi x1lo by (intro mult_mono) simp_all
  have Ax0: "0 \<le> A * x0" using A x0 by simp
  have p0A: "(A * x0) * (A * x0) \<le> p0"
    unfolding p0_def using x1 Ax0 by (intro mult_mono) simp_all
  have p0B: "p0 \<le> (B * x0) * (B * x0)"
    unfolding p0_def using x1 x1lo by (intro mult_mono) simp_all
  obtain x2 where x2: "fl p0 = Num x2" "A * p0 \<le> x2" "x2 \<le> B * p0"
    using fl_rel_mid [of p0] p0lo p0hi unfolding A_def B_def by auto
  have "9 / 10 * (9 / 10 * (9 / 10)) \<le> A * p0" using A p0lo by (intro mult_mono) simp_all
  with x2 have x2lo: "7 / 10 \<le> x2" by simp
  have "B * p0 \<le> 11 / 10 * (3 * 3)" using B p0hi p0lo by (intro mult_mono) simp_all
  with x2 have x2hi: "x2 \<le> 10" by simp
  have "A * ((A * x0) * (A * x0)) \<le> A * p0" using A p0A by (intro mult_left_mono) simp_all
  with x2 have x2A: "A ^ 3 * x0 ^ 2 \<le> x2" by (simp add: power2_eq_square power3_eq_cube ac_simps)
  have "B * p0 \<le> B * ((B * x0) * (B * x0))" using B p0B by (intro mult_left_mono) simp_all
  with x2 have x2B: "x2 \<le> B ^ 3 * x0 ^ 2" by (simp add: power2_eq_square power3_eq_cube ac_simps)
  define d0 where "d0 = w / x2"
  have x2pos: "0 < x2" using x2lo by simp
  have d0lo: "2 \<le> d0"
  proof -
    have "20 / 10 \<le> w / x2" using w x2hi x2pos by (intro frac_le) simp_all
    then show ?thesis by (simp add: d0_def)
  qed
  have d0hi: "d0 \<le> 429"
  proof -
    have a: "w / x2 \<le> 300 / (7 / 10)" using w x2lo by (intro frac_le) simp_all
    have b: "(300::rat) / (7 / 10) \<le> 429" by simp
    from a b show ?thesis unfolding d0_def by (rule order_trans)
  qed
  obtain q where q: "fl d0 = Num q" "A * d0 \<le> q" "q \<le> B * d0"
    using fl_rel_mid [of d0] d0lo d0hi unfolding A_def B_def by auto
  have "9 / 10 * 2 \<le> A * d0" using A d0lo by (intro mult_mono) simp_all
  with q have qlo: "1 \<le> q" by simp
  have "B * d0 \<le> 11 / 10 * 429" using B d0hi d0lo by (intro mult_mono) simp_all
  with q have qhi: "q \<le> 500" by simp
  define Q where "Q = w / x0 ^ 2"
  have x0sq: "1 \<le> x0 ^ 2" using x0 by simp
  have x0sq_pos: "0 < x0 ^ 2" using x0sq by linarith
  have Qpos: "0 < Q" unfolding Q_def using w x0sq_pos by (intro divide_pos_pos) simp_all
  have Qhi: "Q \<le> 300"
  proof -
    have "w / x0 ^ 2 \<le> 300 / 1" using w x0sq by (intro frac_le) simp_all
    then show ?thesis by (simp add: Q_def)
  qed
  have A3: "0 < A ^ 3" and B3: "0 < B ^ 3" using A B by simp_all
  have d0A: "d0 \<le> Q / A ^ 3"
  proof -
    have "0 < A ^ 3 * x0 ^ 2" using A3 x0sq_pos by (intro mult_pos_pos)
    then have "w / x2 \<le> w / (A ^ 3 * x0 ^ 2)" using w x2A by (intro divide_left_mono) simp_all
    then show ?thesis by (simp add: d0_def Q_def field_simps)
  qed
  have d0B: "Q / B ^ 3 \<le> d0"
  proof -
    have "w / (B ^ 3 * x0 ^ 2) \<le> w / x2" using w x2B x2pos by (intro divide_left_mono) simp_all
    then show ?thesis by (simp add: d0_def Q_def field_simps)
  qed
  have "B * d0 \<le> B * (Q / A ^ 3)" using B d0A by (intro mult_left_mono) simp_all
  moreover have "B * (Q / A ^ 3) = (B / A ^ 3) * Q" by simp
  ultimately have q_up: "q \<le> (B / A ^ 3) * Q" using q(3) by simp
  have "A * (Q / B ^ 3) \<le> A * d0" using A d0B by (intro mult_left_mono) simp_all
  moreover have "A * (Q / B ^ 3) = (A / B ^ 3) * Q" by simp
  ultimately have q_dn: "(A / B ^ 3) * Q \<le> q" using q(2) by simp
  define c :: rat where "c = 5 / 2 ^ 53"
  have c_up: "B / A ^ 3 \<le> 1 + c" unfolding c_def using A_def B_def by (rule rel_error_up)
  have c_dn: "1 - c \<le> A / B ^ 3" unfolding c_def using A_def B_def by (rule rel_error_down)
  have c0: "0 \<le> c" by (simp add: c_def)
  have Q0: "0 \<le> Q" using Qpos by simp
  have "(B / A ^ 3) * Q \<le> (1 + c) * Q" using c_up Q0 by (rule mult_right_mono)
  with q_up have "q \<le> (1 + c) * Q" by (rule order_trans)
  moreover have "(1 + c) * Q = Q + c * Q" by (simp add: distrib_right)
  ultimately have u1: "q \<le> Q + c * Q" by simp
  have "(1 - c) * Q \<le> (A / B ^ 3) * Q" using c_dn Q0 by (rule mult_right_mono)
  from this q_dn have "(1 - c) * Q \<le> q" by (rule order_trans)
  moreover have "(1 - c) * Q = Q - c * Q" by (simp add: left_diff_distrib)
  ultimately have u2: "Q - c * Q \<le> q" by simp
  have cQ: "c * Q \<le> c * 300" using Qhi c0 by (rule mult_left_mono)
  have c300: "c * 300 \<le> 1 / 5000000000000" by (simp add: c_def)
  have err: "\<bar>q - Q\<bar> \<le> 1 / 5000000000000" using u1 u2 cQ c300 by linarith
  have 1: "js_div (Num h) (Num 100) = Num x1" using x1 by (simp add: x0_def)
  have 2: "js_mul (Num x1) (Num x1) = Num x2" using x2 by (simp add: p0_def)
  have 3: "js_div (Num w) (Num x2) = Num q" using q x2pos by (simp add: d0_def)
  have "Q = exact_bmi h w" by (simp add: Q_def exact_bmi_def x0_def)
  with err qlo qhi show ?thesis unfolding 1 2 3 by auto
qed


lemma fl_188_10: "fl (188 / 10) = Num (5291729562160333 / 2 ^ 48)"
  by (simp add: fl_normal_eq [of _ 4 5291729562160333])

lemma round1_mono: "x \<le> y \<Longrightarrow> round1 x \<le> round1 y"
  unfolding round1_def by (intro floor_mono) simp

lemma round1_stable:
  assumes "round1 (Q - e) = round1 (Q + e)" "Q - e \<le> q" "q \<le> Q + e" "0 \<le> e"
  shows "round1 q = round1 Q"
proof -
  have "round1 (Q - e) \<le> round1 q" using assms(2) by (rule round1_mono)
  moreover have "round1 q \<le> round1 (Q + e)" using assms(3) by (rule round1_mono)
  moreover have "round1 (Q - e) \<le> round1 Q" using assms(4) by (intro round1_mono) simp
  moreover have "round1 Q \<le> round1 (Q + e)" using assms(4) by (intro round1_mono) simp
  ultimately show ?thesis using assms(1) by linarith
qed

lemma tenth_close:
  fixes q e :: rat and n :: int
  assumes "of_int n \<le> 10 * q + 1 / 2" "10 * q + 1 / 2 < of_int n + 1"
    "\<bar>q - e\<bar> \<le> 1 / 5000000000000"
  shows "\<bar>of_int n / 10 - e\<bar> \<le> 1 / 20 + 1 / 10 ^ 12"
proof -
  have "\<bar>of_int n / 10 - e\<bar> \<le> 1 / 20 + 1 / 1000000000000"
    using assms by linarith
  then show ?thesis by simp
qed

lemma within_tolerance:
  fixes q Q :: rat
  assumes "\<bar>q - Q\<bar> \<le> 1 / 5000000000000"
  shows "Q - 1 / 10 ^ 12 \<le> q" "q \<le> Q + 1 / 10 ^ 12"
proof -
  have "Q - 1 / 1000000000000 \<le> q" "q \<le> Q + 1 / 1000000000000"
    using assms by linarith+
  then show "Q - 1 / 10 ^ 12 \<le> q" "q \<le> Q + 1 / 10 ^ 12" by simp_all
qed

lemma toFixed1_small:
  assumes "1 \<le> q" "q \<le> 500"
  shows "toFixed1 (Num q) = Tenths (round1 q)"
proof -
  have "\<not> 10 ^ 21 \<le> \<bar>q\<bar>" using assms by simp
  moreover have "\<not> q < 0" "\<bar>q\<bar> = q" using assms by simp_all
  ultimately show ?thesis by (simp add: round1_def)
qed

lemma calcBmi_valid:
  fixes h w :: rat
  assumes h: "100 \<le> h" "h \<le> 250" and w: "20 \<le> w" "w \<le> 300"
  shows "\<exists>n. calcBmi (Num h) (Num w) = Number (Tenths n)
             \<and> \<bar>of_int n / 10 - exact_bmi h w\<bar> \<le> 1 / 20 + 1 / 10 ^ 12
             \<and> (\<not> near_rounding_boundary (exact_bmi h w) \<longrightarrow> n = round1 (exact_bmi h w))"
proof -
  obtain q where q: "js_div (Num w) (js_mul (js_div (Num h) (Num 100)) (js_div (Num h) (Num 100))) = Num q"
    "1 \<le> q" "q \<le> 500" "\<bar>q - exact_bmi h w\<bar> \<le> 1 / 5000000000000"
    using quotient_error [OF assms] by blast
  have tf: "toFixed1 (Num q) = Tenths (round1 q)" using q(2,3) by (rule toFixed1_small)
  have c: "calcBmi (Num h) (Num w) = Number (Tenths (round1 q))"
    unfolding calcBmi_def Let_def q(1) tf by (rule refl)
  have "of_int (round1 q) \<le> 10 * q + 1 / 2" "10 * q + 1 / 2 < of_int (round1 q) + 1"
    unfolding round1_def by linarith+
  then have d: "\<bar>of_int (round1 q) / 10 - exact_bmi h w\<bar> \<le> 1 / 20 + 1 / 10 ^ 12"
    using q(4) by (rule tenth_close)
  have r: "round1 q = round1 (exact_bmi h w)" if "\<not> near_rounding_boundary (exact_bmi h w)"
  proof (rule round1_stable)
    show "round1 (exact_bmi h w - 1 / 10 ^ 12) = round1 (exact_bmi h w + 1 / 10 ^ 12)"
      using that unfolding near_rounding_boundary_def by simp
    show "exact_bmi h w - 1 / 10 ^ 12 \<le> q" "q \<le> exact_bmi h w + 1 / 10 ^ 12"
      using q(4) by (rule within_tolerance)+
    show "(0::rat) \<le> 1 / 10 ^ 12" by simp
  qed
  from c d r show ?thesis by blast
qed

section \<open>The risk score: auxiliary facts\<close>

lemma healthRiskScore_submitProfile:
  "healthRiskScore (submitProfile p) = Num (of_int (min (calculateRiskScore p) 100))"
  by (simp add: submitProfile_def handleSubmit_resume_def handleSubmit_start_def Let_def)

lemma predictedRisk_submitProfile:
  "predictedRisk (submitProfile p) =
     (if calculateRiskScore p < 30 then low else if calculateRiskScore p < 60 then medium else high)"
  by (simp add: submitProfile_def handleSubmit_resume_def handleSubmit_start_def Let_def)

lemma resume_profileData:
  "healthRiskScore (profileData (handleSubmit_resume c s)) = healthRiskScore (submitProfile c)"
  "predictedRisk (profileData (handleSubmit_resume c s)) = predictedRisk (submitProfile c)"
  by (simp_all add: submitProfile_def handleSubmit_resume_def handleSubmit_start_def Let_def)

lemma calculateRiskScore_sum:
  "calculateRiskScore p =
     agePoints (age p) + bmiPoints (bmi p) + smokingPoints (smokingStatus p)
     + alcoholPoints (alcoholConsumption p) + activityPoints (activityLevel p)
     + flagPoints 20 (hasHypertension p) + flagPoints 25 (hasDiabetes p)
     + flagPoints 15 (hasHighBP p) + flagPoints 10 (heartDisease (familyHistory p))
     + flagPoints 10 (diabetes (familyHistory p)) + flagPoints 8 (hypertension (familyHistory p))"
  unfolding calculateRiskScore_def Let_def agePoints_def bmiPoints_def smokingPoints_def
    alcoholPoints_def activityPoints_def flagPoints_def
  by (simp only: add_0)

lemma agePoints_table:
  "first_match [ (js_gt a (Num 65), 20),
                 (js_lt (Num 45) a \<and> js_ge (Num 65) a, 15),
                 (js_lt (Num 35) a \<and> js_ge (Num 45) a, 10) ] = agePoints a"
  by (cases a) (auto simp: agePoints_def js_gt_def)

lemma bmiPoints_table:
  "first_match [ (js_ge b (Num 30), 25),
                 (js_ge b (Num 25) \<and> js_lt b (Num 30), 15),
                 (js_lt b (Num (37 / 2)), 10) ] = bmiPoints b"
  by (cases b) (auto simp: bmiPoints_def)

lemma table_groups_sum:
  "sum_list (table_groups k p) =
     agePoints (age p) + bmiPoints (bmi p) + smokingPoints (smokingStatus p)
     + alcoholPoints (alcoholConsumption p) + activityPoints (activityLevel p)
     + flagPoints 20 (hasHypertension p) + flagPoints 25 (hasDiabetes p)
     + flagPoints 15 (hasHighBP p) + flagPoints k (heartDisease (familyHistory p))
     + flagPoints 10 (diabetes (familyHistory p)) + flagPoints 8 (hypertension (familyHistory p))"
proof -
  have s: "first_match [ (smokingStatus p = current, 20), (smokingStatus p = former, 10) ]
        = smokingPoints (smokingStatus p)"
    by (simp add: smokingPoints_def)
  have al: "first_match [ (alcoholConsumption p = heavy, 15), (alcoholConsumption p = moderate, 5) ]
        = alcoholPoints (alcoholConsumption p)"
    by (simp add: alcoholPoints_def)
  have ac: "first_match [ (activityLevel p = sedentary, 15), (activityLevel p = moderately_active, 5) ]
        = activityPoints (activityLevel p)"
    by (simp add: activityPoints_def)
  have f: "\<And>c k. first_match [ (c, k) ] = flagPoints k c"
    by (simp add: flagPoints_def)
  show ?thesis
    unfolding table_groups_def agePoints_table bmiPoints_table s al ac f
    by (simp only: sum_list.Cons sum_list.Nil add_0_right add.assoc)
qed

lemma calculateRiskScore_groups:
  "calculateRiskScore p = sum_list (table_groups 10 p)"
  by (simp only: calculateRiskScore_sum table_groups_sum)

lemma points_nonneg:
  "0 \<le> agePoints a" "0 \<le> bmiPoints b" "0 \<le> smokingPoints s" "0 \<le> alcoholPoints al"
  "0 \<le> activityPoints ac" "0 \<le> k \<Longrightarrow> 0 \<le> flagPoints k f"
  by (simp_all add: agePoints_def bmiPoints_def smokingPoints_def alcoholPoints_def activityPoints_def flagPoints_def)

lemma calculateRiskScore_nonneg: "0 \<le> calculateRiskScore p"
  unfolding calculateRiskScore_sum by (intro add_nonneg_nonneg points_nonneg) simp_all


lemma mountedPage_eq:
  "mountedPage =
     \<lparr> profileData = initialProfileData None, loading = False, submitted = None,
       pendingEffects = [], toasts = [] \<rparr>"
  by (simp add: mountedPage_def mount_def runEffect_def bmiEffect_def initialProfileData_def
      calcBmi_170_70)

lemma runEffect_fields:
  "healthRiskScore (profileData (runEffect s)) = healthRiskScore (profileData s)"
  "predictedRisk (profileData (runEffect s)) = predictedRisk (profileData s)"
  "height (profileData (runEffect s)) = height (profileData s)"
  "weight (profileData (runEffect s)) = weight (profileData s)"
  "loading (runEffect s) = loading s"
  "submitted (runEffect s) = submitted s"
  by (simp_all add: runEffect_def bmiEffect_def split: list.splits)

lemma render_fields:
  "profileData (render before s) = profileData s"
  "loading (render before s) = loading s"
  "submitted (render before s) = submitted s"
  by (simp_all add: render_def)

lemma changeInput_fields:
  "healthRiskScore (profileData (changeInput i s)) = healthRiskScore (profileData s)"
  "predictedRisk (profileData (changeInput i s)) = predictedRisk (profileData s)"
  "loading (changeInput i s) = loading s"
  "submitted (changeInput i s) = submitted s"
  by (cases i; simp add: changeInput_def render_fields)+

lemma changeFamilyHistory_fields:
  "healthRiskScore (profileData (changeFamilyHistory f v s)) = healthRiskScore (profileData s)"
  "predictedRisk (profileData (changeFamilyHistory f v s)) = predictedRisk (profileData s)"
  "loading (changeFamilyHistory f v s) = loading s"
  "submitted (changeFamilyHistory f v s) = submitted s"
  by (cases f; simp add: changeFamilyHistory_def render_fields)+

lemma reachable_category:
  "reachable u s \<Longrightarrow> predictedRisk (profileData s) = riskCategory (healthRiskScore (profileData s))"
proof (induction rule: reachable.induct)
  case mounted
  show ?case by (simp add: mount_def initialProfileData_def riskCategory_def)
next
  case (fired s e t)
  show ?case
  proof (cases e)
    case (Change i)
    with fired show ?thesis by (auto simp: changeInput_fields)
  next
    case (ChangeFamilyHistory f v)
    with fired show ?thesis by (auto simp: changeFamilyHistory_fields)
  next
    case Submit
    with fired show ?thesis by (auto simp: handleSubmit_start_def split: if_splits)
  next
    case TimerFired
    with fired obtain c where "submitted s = Some c" "t = handleSubmit_resume c s"
      by (auto split: option.splits)
    then show ?thesis
      by (simp add: resume_profileData healthRiskScore_submitProfile predictedRisk_submitProfile
          riskCategory_def min_def)
  next
    case EffectRuns
    with fired show ?thesis by (auto simp: runEffect_fields split: if_splits)
  qed
qed

lemma evaluate_eq:
  "evaluate p =
     \<lparr> bmi_metric = calcBmi (height p) (weight p),
       riskScore_metric = Num (of_int (min (calculateRiskScore (bmiEffect p p)) 100)),
       riskCategory_metric =
         (if calculateRiskScore (bmiEffect p p) < 30 then low
          else if calculateRiskScore (bmiEffect p p) < 60 then medium else high) \<rparr>"
proof -
  have "bmi (submitProfile (bmiEffect p p)) = calcBmi (height p) (weight p)"
    by (simp add: submitProfile_def handleSubmit_resume_def handleSubmit_start_def Let_def bmiEffect_def)
  then show ?thesis
    by (simp add: evaluate_def Let_def healthRiskScore_submitProfile predictedRisk_submitProfile)
qed

lemma calculateRiskScore_bmiEffect_cong:
  "same_inputs p q \<Longrightarrow> calculateRiskScore (bmiEffect p p) = calculateRiskScore (bmiEffect q q)"
  by (simp add: calculateRiskScore_sum same_inputs_def bmiEffect_def)

lemma agePoints_mono: "js_ge a' a \<Longrightarrow> agePoints a \<le> agePoints a'"
  by (cases a; cases a') (auto simp: agePoints_def js_gt_def)

lemma bmiPoints_mono:
  "js_ge b (Num (37 / 2)) \<Longrightarrow> js_ge b' b \<Longrightarrow> bmiPoints b \<le> bmiPoints b'"
  by (cases b; cases b') (auto simp: bmiPoints_def)

lemma smokingPoints_mono: "smokingRisk x \<le> smokingRisk x' \<Longrightarrow> smokingPoints x \<le> smokingPoints x'"
  by (cases x; cases x') (simp_all add: smokingPoints_def)

lemma alcoholPoints_mono: "alcoholRisk x \<le> alcoholRisk x' \<Longrightarrow> alcoholPoints x \<le> alcoholPoints x'"
  by (cases x; cases x') (simp_all add: alcoholPoints_def)

lemma activityPoints_mono: "activityRisk x \<le> activityRisk x' \<Longrightarrow> activityPoints x \<le> activityPoints x'"
  by (cases x; cases x') (simp_all add: activityPoints_def)

lemma flagPoints_mono: "0 \<le> k \<Longrightarrow> flagPoints k False \<le> flagPoints k True"
  by (simp add: flagPoints_def)

lemma score_mono:
  "calculateRiskScore p \<le> calculateRiskScore p' \<Longrightarrow>
   js_ge (healthRiskScore (submitProfile p')) (healthRiskScore (submitProfile p))"
  by (simp add: healthRiskScore_submitProfile)

lemma mount_profileData: "profileData (mount None) = initialProfileData None"
  by (simp add: mount_def)

text \<open>
  The invariant of the BMI: it is the value for the current height and weight, or effects
  are scheduled and the last of them holds the current height and weight.
\<close>

lemma bmi_invariant:
  "reachable u s \<Longrightarrow>
   (pendingEffects s = [] \<longrightarrow>
      bmi (profileData s) = calcBmi (height (profileData s)) (weight (profileData s)))
   \<and> (pendingEffects s \<noteq> [] \<longrightarrow>
        height (last (pendingEffects s)) = height (profileData s)
        \<and> weight (last (pendingEffects s)) = weight (profileData s))"
proof (induction rule: reachable.induct)
  case mounted
  show ?case by (simp add: mount_def)
next
  case (fired s e t)
  show ?case
  proof (cases e)
    case (Change i)
    with fired.hyps have t: "t = changeInput i s" by simp
    show ?thesis
      unfolding t using fired.IH
      by (cases i) (simp_all add: changeInput_def render_def)
  next
    case (ChangeFamilyHistory f v)
    with fired.hyps have t: "t = changeFamilyHistory f v s" by simp
    show ?thesis
      unfolding t using fired.IH
      by (cases f) (simp_all add: changeFamilyHistory_def render_def)
  next
    case Submit
    with fired.hyps have t: "t = handleSubmit_start s" by (simp split: if_splits)
    show ?thesis unfolding t using fired.IH by (simp add: handleSubmit_start_def)
  next
    case TimerFired
    with fired.hyps obtain c where t: "t = handleSubmit_resume c s"
      by (auto split: option.splits)
    show ?thesis unfolding t using fired.IH by (simp add: handleSubmit_resume_def Let_def)
  next
    case EffectRuns
    with fired.hyps have t: "t = runEffect s" and p: "pendingEffects s \<noteq> []"
      by (simp_all split: if_splits)
    from p obtain c cs where cs: "pendingEffects s = c # cs" by (cases "pendingEffects s") auto
    show ?thesis
      unfolding t using fired.IH cs
      by (cases cs) (simp_all add: runEffect_def bmiEffect_def)
  qed
qed

lemma effects_settle:
  "pendingEffects s = cs \<Longrightarrow> cs \<noteq> [] \<Longrightarrow>
   height (last cs) = height (profileData s) \<Longrightarrow> weight (last cs) = weight (profileData s) \<Longrightarrow>
   \<exists>t. run (replicate (length cs) EffectRuns) s = Some t \<and> pendingEffects t = []
       \<and> bmi (profileData t) = calcBmi (height (profileData t)) (weight (profileData t))"
proof (induction cs arbitrary: s)
  case Nil
  then show ?case by simp
next
  case (Cons c cs)
  have f: "fire EffectRuns s = Some (runEffect s)" using Cons.prems(1) by simp
  have p: "pendingEffects (runEffect s) = cs" using Cons.prems(1) by (simp add: runEffect_def)
  show ?case
  proof (cases "cs = []")
    case True
    have "bmi (profileData (runEffect s))
        = calcBmi (height (profileData (runEffect s))) (weight (profileData (runEffect s)))"
      using Cons.prems True by (simp add: runEffect_def bmiEffect_def)
    with f p True show ?thesis by simp
  next
    case False
    have "height (last cs) = height (profileData (runEffect s))"
      "weight (last cs) = weight (profileData (runEffect s))"
      using Cons.prems False by (simp_all add: runEffect_fields)
    from Cons.IH [OF p False this]
    obtain t where "run (replicate (length cs) EffectRuns) (runEffect s) = Some t"
      "pendingEffects t = []"
      "bmi (profileData t) = calcBmi (height (profileData t)) (weight (profileData t))"
      by blast
    with f show ?thesis by simp
  qed
qed

lemma calculateRiskScore_derived:
  "calculateRiskScore (p\<lparr> healthRiskScore := a, predictedRisk := b \<rparr>) = calculateRiskScore p"
  by (simp add: calculateRiskScore_sum)

lemma run_keeps_submitted:
  "run es s1 = Some s2 \<Longrightarrow> TimerFired \<notin> set es \<Longrightarrow> loading s1 \<Longrightarrow> submitted s1 = Some c
   \<Longrightarrow> loading s2 \<and> submitted s2 = Some c"
proof (induction es arbitrary: s1)
  case Nil
  then show ?case by simp
next
  case (Cons e es)
  from Cons.prems(1) obtain m where m: "fire e s1 = Some m" "run es m = Some s2"
    by (auto split: option.splits)
  have "loading m \<and> submitted m = Some c"
  proof (cases e)
    case (Change i)
    with m Cons.prems show ?thesis by (auto simp: changeInput_fields)
  next
    case (ChangeFamilyHistory f v)
    with m Cons.prems show ?thesis by (auto simp: changeFamilyHistory_fields)
  next
    case Submit
    with m Cons.prems show ?thesis by simp
  next
    case TimerFired
    with Cons.prems show ?thesis by simp
  next
    case EffectRuns
    with m Cons.prems show ?thesis by (auto simp: runEffect_fields split: if_splits)
  qed
  with Cons.IH [OF m(2)] Cons.prems(2) show ?case by simp
qed

section \<open>The claims\<close>

text \<open>
  C1 (as amended). The score stored by a submission is the capped sum of the point table,
  first match within a group and the groups summed, where the family heart-disease row gives
  10 points (the specification's table says 8); every other row is as the specification has
  it.
\<close>

theorem submitted_score_is_table_score:
  "healthRiskScore (submitProfile p) = Num (of_int (table_score 10 p))"
  by (simp add: healthRiskScore_submitProfile table_score_def calculateRiskScore_groups)

text \<open>
  C1 as stated fails: on the freshly mounted page with only the family heart-disease box
  ticked, a submission stores 15 (5 for moderate activity, 10 for the box), while the table
  with 8 points for that row gives 13.
\<close>

theorem heart_disease_row_counterexample:
  "healthRiskScore (submitProfile heartDiseaseTicked) = Num 15
   \<and> table_score 8 heartDiseaseTicked = 13
   \<and> healthRiskScore (submitProfile heartDiseaseTicked)
       \<noteq> Num (of_int (table_score 8 heartDiseaseTicked))"
  by (simp add: healthRiskScore_submitProfile calculateRiskScore_sum table_score_def
      table_groups_sum heartDiseaseTicked_def changeFamilyHistory_def render_def
      mountedPage_eq initialProfileData_def fl_121_5
      agePoints_def bmiPoints_def smokingPoints_def alcoholPoints_def activityPoints_def
      flagPoints_def js_gt_def)

text \<open>
  C2 (as amended). The BMI is recomputed by the effect that a render schedules when the
  height or the weight has changed; the render in between still shows the BMI of before. In
  every state the page reaches, either no effect is scheduled and the BMI is the value
  computed from the current height and weight, or effects are scheduled and it is so once
  they have run. The risk score and the category are recomputed only by a submission: every
  event but the timer of a submission leaves both as they were; when the timer of a
  submission fires, whatever changed since the submit event, the stored score and category
  are those of the \<open>profileData\<close> the page had at the submit event; that is the capped sum
  for the current fields when no effect was scheduled at the submit event and the timer
  fires next.
\<close>

theorem derived_values_recomputed:
  assumes "reachable u s"
  shows "(pendingEffects s = [] \<longrightarrow>
            bmi (profileData s) = calcBmi (height (profileData s)) (weight (profileData s)))
    \<and> (pendingEffects s \<noteq> [] \<longrightarrow>
          (\<exists>t. run (replicate (length (pendingEffects s)) EffectRuns) s = Some t
             \<and> pendingEffects t = []
             \<and> bmi (profileData t) = calcBmi (height (profileData t)) (weight (profileData t))))
    \<and> (\<forall>e t. e \<noteq> TimerFired \<longrightarrow> fire e s = Some t \<longrightarrow>
          healthRiskScore (profileData t) = healthRiskScore (profileData s)
          \<and> predictedRisk (profileData t) = predictedRisk (profileData s))
    \<and> (\<forall>s1 es s2 t.
          fire Submit s = Some s1 \<longrightarrow> TimerFired \<notin> set es \<longrightarrow> run es s1 = Some s2 \<longrightarrow>
          fire TimerFired s2 = Some t \<longrightarrow>
          healthRiskScore (profileData t)
            = Num (of_int (min (calculateRiskScore (profileData s)) 100))
          \<and> predictedRisk (profileData t) = predictedRisk (submitProfile (profileData s)))
    \<and> (\<forall>s1 t.
          pendingEffects s = [] \<longrightarrow> fire Submit s = Some s1 \<longrightarrow> fire TimerFired s1 = Some t \<longrightarrow>
          pendingEffects t = []
          \<and> healthRiskScore (profileData t)
              = Num (of_int (min (calculateRiskScore (profileData t)) 100)))"
proof (intro conjI allI impI)
  assume "pendingEffects s = []"
  with bmi_invariant [OF assms]
  show "bmi (profileData s) = calcBmi (height (profileData s)) (weight (profileData s))"
    by simp
next
  assume p: "pendingEffects s \<noteq> []"
  with bmi_invariant [OF assms]
  have "height (last (pendingEffects s)) = height (profileData s)"
    "weight (last (pendingEffects s)) = weight (profileData s)"
    by simp_all
  with p show "\<exists>t. run (replicate (length (pendingEffects s)) EffectRuns) s = Some t
      \<and> pendingEffects t = []
      \<and> bmi (profileData t) = calcBmi (height (profileData t)) (weight (profileData t))"
    by (intro effects_settle) simp_all
next
  fix e t
  assume e: "e \<noteq> TimerFired" and f: "fire e s = Some t"
  have "healthRiskScore (profileData t) = healthRiskScore (profileData s)
        \<and> predictedRisk (profileData t) = predictedRisk (profileData s)"
  proof (cases e)
    case (Change i)
    with f show ?thesis by (auto simp: changeInput_fields)
  next
    case (ChangeFamilyHistory f' v)
    with f show ?thesis by (auto simp: changeFamilyHistory_fields)
  next
    case Submit
    with f show ?thesis by (auto simp: handleSubmit_start_def split: if_splits)
  next
    case TimerFired
    with e show ?thesis by simp
  next
    case EffectRuns
    with f show ?thesis by (auto simp: runEffect_fields split: if_splits)
  qed
  then show "healthRiskScore (profileData t) = healthRiskScore (profileData s)"
    and "predictedRisk (profileData t) = predictedRisk (profileData s)"
    by simp_all
next
  fix s1 es s2 t
  assume sub: "fire Submit s = Some s1" and es: "TimerFired \<notin> set es"
    and r: "run es s1 = Some s2" and tf: "fire TimerFired s2 = Some t"
  from sub have s1: "s1 = handleSubmit_start s" by (simp split: if_splits)
  have "loading s1" "submitted s1 = Some (profileData s)"
    unfolding s1 by (simp_all add: handleSubmit_start_def)
  with run_keeps_submitted [OF r es] have "submitted s2 = Some (profileData s)" by simp
  with tf have t: "t = handleSubmit_resume (profileData s) s2" by simp
  show "healthRiskScore (profileData t)
          = Num (of_int (min (calculateRiskScore (profileData s)) 100))"
    unfolding t by (simp only: resume_profileData healthRiskScore_submitProfile)
  show "predictedRisk (profileData t) = predictedRisk (submitProfile (profileData s))"
    unfolding t by (simp only: resume_profileData)
next
  fix s1 t
  assume p: "pendingEffects s = []" and sub: "fire Submit s = Some s1"
    and tf: "fire TimerFired s1 = Some t"
  from sub have s1: "s1 = handleSubmit_start s" by (simp split: if_splits)
  from tf have t: "t = handleSubmit_resume (profileData s) (handleSubmit_start s)"
    unfolding s1 by (simp add: handleSubmit_start_def)
  show "pendingEffects t = []"
    unfolding t using p by (simp add: handleSubmit_resume_def handleSubmit_start_def Let_def)
  show "healthRiskScore (profileData t)
          = Num (of_int (min (calculateRiskScore (profileData t)) 100))"
    unfolding t
    by (simp add: handleSubmit_resume_def handleSubmit_start_def Let_def
        calculateRiskScore_derived)
qed

theorem derived_values_recomputed_witness:
  "reachable None (mount None) \<and> pendingEffects (mount None) \<noteq> []
   \<and> run (replicate (length (pendingEffects (mount None))) EffectRuns) (mount None)
       = Some mountedPage
   \<and> reachable None mountedPage \<and> pendingEffects mountedPage = []
   \<and> bmi (profileData mountedPage)
       = calcBmi (height (profileData mountedPage)) (weight (profileData mountedPage))
   \<and> healthRiskScore (profileData (changeInput (hasDiabetes_value True) mountedPage)) = Num 25
   \<and> map_option (\<lambda>t. (hasDiabetes (profileData t), healthRiskScore (profileData t)))
        (run [Submit, Change (hasDiabetes_value True), TimerFired] mountedPage)
       = Some (True, Num 5)
   \<and> map_option (\<lambda>t. healthRiskScore (profileData t)) (run [Submit, TimerFired] mountedPage)
       = Some (Num 5)"
proof -
  have r0: "reachable None (mount None)" by (rule reachable.mounted)
  have p0: "pendingEffects (mount None) \<noteq> []" by (simp add: mount_def)
  have f0: "fire EffectRuns (mount None) = Some mountedPage"
    by (simp add: mount_def mountedPage_def)
  have l0: "length (pendingEffects (mount None)) = 1" by (simp add: mount_def)
  from derived_values_recomputed [OF r0] p0
  obtain t0 where "run (replicate (length (pendingEffects (mount None))) EffectRuns) (mount None)
      = Some t0"
    by blast
  then have e0: "run (replicate (length (pendingEffects (mount None))) EffectRuns) (mount None)
      = Some mountedPage"
    unfolding l0 using f0 by simp
  have r1: "reachable None mountedPage" using r0 f0 by (rule reachable.fired)
  have p1: "pendingEffects mountedPage = []" by (simp add: mountedPage_eq)
  note t = derived_values_recomputed [OF r1]
  from t p1 have b: "bmi (profileData mountedPage)
       = calcBmi (height (profileData mountedPage)) (weight (profileData mountedPage))"
    by blast
  have score: "calculateRiskScore (profileData mountedPage) = 5"
    by (simp add: mountedPage_eq calculateRiskScore_sum initialProfileData_def fl_121_5
        agePoints_def bmiPoints_def smokingPoints_def alcoholPoints_def activityPoints_def
        flagPoints_def js_gt_def)
  have "fire (Change (hasDiabetes_value True)) mountedPage
          = Some (changeInput (hasDiabetes_value True) mountedPage)"
    by simp
  with t have "healthRiskScore (profileData (changeInput (hasDiabetes_value True) mountedPage))
      = healthRiskScore (profileData mountedPage)"
    by blast
  then have d: "healthRiskScore (profileData (changeInput (hasDiabetes_value True) mountedPage))
      = Num 25"
    by (simp add: mountedPage_eq initialProfileData_def)
  define s1 where "s1 = handleSubmit_start mountedPage"
  define s2 where "s2 = changeInput (hasDiabetes_value True) s1"
  define t2 where "t2 = handleSubmit_resume (profileData mountedPage) s2"
  have f1: "fire Submit mountedPage = Some s1" by (simp add: s1_def mountedPage_eq)
  have f2: "run [Change (hasDiabetes_value True)] s1 = Some s2" by (simp add: s2_def)
  have sub2: "submitted s2 = Some (profileData mountedPage)"
    by (simp add: s2_def s1_def changeInput_fields handleSubmit_start_def)
  have f3: "fire TimerFired s2 = Some t2" by (simp add: t2_def sub2)
  have nt: "TimerFired \<notin> set [Change (hasDiabetes_value True)]" by simp
  from t f1 nt f2 f3 have "healthRiskScore (profileData t2)
      = Num (of_int (min (calculateRiskScore (profileData mountedPage)) 100))"
    by blast
  then have h2: "healthRiskScore (profileData t2) = Num 5" by (simp add: score)
  have d2: "hasDiabetes (profileData t2)"
    by (simp add: t2_def s2_def handleSubmit_resume_def Let_def changeInput_def render_def)
  have run2: "run [Submit, Change (hasDiabetes_value True), TimerFired] mountedPage = Some t2"
    using f1 f2 f3 by simp
  define t3 where "t3 = handleSubmit_resume (profileData mountedPage) s1"
  have sub1: "submitted s1 = Some (profileData mountedPage)"
    by (simp add: s1_def handleSubmit_start_def)
  have f4: "fire TimerFired s1 = Some t3" by (simp add: t3_def sub1)
  from t p1 f1 f4 have "healthRiskScore (profileData t3)
      = Num (of_int (min (calculateRiskScore (profileData t3)) 100))"
    by blast
  moreover have "calculateRiskScore (profileData t3) = calculateRiskScore (profileData mountedPage)"
    by (simp add: t3_def s1_def handleSubmit_resume_def handleSubmit_start_def Let_def
        calculateRiskScore_derived)
  ultimately have h3: "healthRiskScore (profileData t3) = Num 5" by (simp add: score)
  have run3: "run [Submit, TimerFired] mountedPage = Some t3" using f1 f4 by simp
  have m2: "map_option (\<lambda>t. (hasDiabetes (profileData t), healthRiskScore (profileData t)))
        (run [Submit, Change (hasDiabetes_value True), TimerFired] mountedPage)
       = Some (True, Num 5)"
    unfolding run2 by (simp add: h2 d2)
  have m3: "map_option (\<lambda>t. healthRiskScore (profileData t)) (run [Submit, TimerFired] mountedPage)
       = Some (Num 5)"
    unfolding run3 by (simp add: h3)
  show ?thesis using r0 p0 e0 r1 p1 b d m2 m3 by (intro conjI)
qed

text \<open>
  C2 as stated fails. For the risk score: ticking the diabetes box on the mounted page
  leaves the displayed score at 25 and the category at low, while the fields now give 30 and
  medium. For the BMI: after the height is set to 180 on the mounted page, the render shows
  the BMI 24.2 of before, while the height and weight give 21.6, until the effect has run.
\<close>

theorem stale_score_counterexample:
  "run [EffectRuns, Change (hasDiabetes_value True)] (mount None) = Some diabetesTicked
   \<and> hasDiabetes (profileData diabetesTicked)
   \<and> healthRiskScore (profileData diabetesTicked) = Num 25
   \<and> healthRiskScore (submitProfile (profileData diabetesTicked)) = Num 30
   \<and> predictedRisk (profileData diabetesTicked) = low
   \<and> predictedRisk (submitProfile (profileData diabetesTicked)) = medium
   \<and> run [EffectRuns, Change (height_value (Num 180))] (mount None) = Some heightTyped
   \<and> bmi (profileData heightTyped) = Number (Tenths 242)
   \<and> calcBmi (height (profileData heightTyped)) (weight (profileData heightTyped))
       = Number (Tenths 216)
   \<and> Number (Tenths 242) \<noteq> Number (Tenths 216)"
proof -
  have f0: "fire EffectRuns (mount None) = Some mountedPage"
    by (simp add: mount_def mountedPage_def)
  have d: "profileData diabetesTicked = (initialProfileData None)\<lparr> hasDiabetes := True \<rparr>"
    by (simp add: diabetesTicked_def changeInput_def render_def mountedPage_eq)
  have 1: "run [EffectRuns, Change (hasDiabetes_value True)] (mount None) = Some diabetesTicked"
    using f0 by (simp add: diabetesTicked_def)
  have 2: "hasDiabetes (profileData diabetesTicked)"
    "healthRiskScore (profileData diabetesTicked) = Num 25"
    "predictedRisk (profileData diabetesTicked) = low"
    by (simp_all add: d initialProfileData_def)
  have c: "calculateRiskScore (profileData diabetesTicked) = 30"
    by (simp add: d calculateRiskScore_sum initialProfileData_def fl_121_5
        agePoints_def bmiPoints_def smokingPoints_def alcoholPoints_def activityPoints_def
        flagPoints_def js_gt_def)
  have 3: "healthRiskScore (submitProfile (profileData diabetesTicked)) = Num 30"
    "predictedRisk (submitProfile (profileData diabetesTicked)) = medium"
    by (simp_all add: healthRiskScore_submitProfile predictedRisk_submitProfile c)
  have h: "profileData heightTyped = (initialProfileData None)\<lparr> height := Num 180 \<rparr>"
    by (simp add: heightTyped_def changeInput_def render_def mountedPage_eq)
  have 4: "run [EffectRuns, Change (height_value (Num 180))] (mount None) = Some heightTyped"
    using f0 by (simp add: heightTyped_def)
  have 5: "bmi (profileData heightTyped) = Number (Tenths 242)"
    by (simp add: h initialProfileData_def)
  have 6: "calcBmi (height (profileData heightTyped)) (weight (profileData heightTyped))
       = Number (Tenths 216)"
    by (simp add: h initialProfileData_def calcBmi_180_70 fl_108_5)
  have 7: "Number (Tenths 242) \<noteq> Number (Tenths 216)"
    by (simp add: fl_121_5 fl_108_5)
  show ?thesis using 1 2 3 4 5 6 7 by (intro conjI)
qed

text \<open>
  C3. The score that a submission stores is an integer between 0 and 100, whatever the
  profile submitted.
\<close>

theorem submitted_score_in_range:
  "\<exists>n::int. healthRiskScore (submitProfile p) = Num (of_int n) \<and> 0 \<le> n \<and> n \<le> 100"
  using calculateRiskScore_nonneg [of p] by (auto simp: healthRiskScore_submitProfile)

text \<open>
  C4. The category is a function of the stored score alone, with the thresholds 30 and 60:
  after a submission of any profile, and in every state the page can reach; the level that
  \<open>getRiskLevel\<close> shows for a score is the label of that category.
\<close>

theorem category_from_score:
  "(\<forall>p. predictedRisk (submitProfile p) = riskCategory (healthRiskScore (submitProfile p)))
   \<and> (\<forall>u s. reachable u s \<longrightarrow>
          predictedRisk (profileData s) = riskCategory (healthRiskScore (profileData s)))
   \<and> (\<forall>score. level (getRiskLevel score) = riskLabel (riskCategory score))"
proof (intro conjI allI impI)
  fix p
  show "predictedRisk (submitProfile p) = riskCategory (healthRiskScore (submitProfile p))"
    by (simp add: healthRiskScore_submitProfile predictedRisk_submitProfile riskCategory_def
        min_def)
next
  fix u s
  assume "reachable u s"
  then show "predictedRisk (profileData s) = riskCategory (healthRiskScore (profileData s))"
    by (rule reachable_category)
next
  fix score
  show "level (getRiskLevel score) = riskLabel (riskCategory score)"
    by (cases score) (simp_all add: getRiskLevel_def riskCategory_def)
qed


theorem category_from_score_witness:
  "reachable None (mount None)
   \<and> predictedRisk (profileData (mount None))
       = riskCategory (healthRiskScore (profileData (mount None)))
   \<and> predictedRisk (profileData (mount None)) = low"
proof -
  have r: "reachable None (mount None)" by (rule reachable.mounted)
  with category_from_score
  have "predictedRisk (profileData (mount None))
          = riskCategory (healthRiskScore (profileData (mount None)))"
    by blast
  moreover have "predictedRisk (profileData (mount None)) = low"
    by (simp add: mount_def initialProfileData_def)
  ultimately show ?thesis using r by simp
qed

text \<open>
  C5 (as amended). With the other fields fixed, the stored score does not decrease when the
  age grows, when the smoking status moves from never to former to current, the alcohol
  consumption from none to moderate to heavy, the activity level from active to moderate to
  sedentary, or a condition or family-history flag from false to true; and it does not
  decrease when the BMI grows from a value of at least 18.5.
\<close>

theorem score_monotone_in_each_factor:
  "(js_ge a' a \<longrightarrow>
      js_ge (healthRiskScore (submitProfile (p\<lparr> age := a' \<rparr>)))
            (healthRiskScore (submitProfile (p\<lparr> age := a \<rparr>))))
   \<and> (js_ge b (Num (37 / 2)) \<and> js_ge b' b \<longrightarrow>
      js_ge (healthRiskScore (submitProfile (p\<lparr> bmi := b' \<rparr>)))
            (healthRiskScore (submitProfile (p\<lparr> bmi := b \<rparr>))))
   \<and> (smokingRisk x \<le> smokingRisk x' \<longrightarrow>
      js_ge (healthRiskScore (submitProfile (p\<lparr> smokingStatus := x' \<rparr>)))
            (healthRiskScore (submitProfile (p\<lparr> smokingStatus := x \<rparr>))))
   \<and> (alcoholRisk y \<le> alcoholRisk y' \<longrightarrow>
      js_ge (healthRiskScore (submitProfile (p\<lparr> alcoholConsumption := y' \<rparr>)))
            (healthRiskScore (submitProfile (p\<lparr> alcoholConsumption := y \<rparr>))))
   \<and> (activityRisk z \<le> activityRisk z' \<longrightarrow>
      js_ge (healthRiskScore (submitProfile (p\<lparr> activityLevel := z' \<rparr>)))
            (healthRiskScore (submitProfile (p\<lparr> activityLevel := z \<rparr>))))
   \<and> js_ge (healthRiskScore (submitProfile (p\<lparr> hasHypertension := True \<rparr>)))
            (healthRiskScore (submitProfile (p\<lparr> hasHypertension := False \<rparr>)))
   \<and> js_ge (healthRiskScore (submitProfile (p\<lparr> hasDiabetes := True \<rparr>)))
            (healthRiskScore (submitProfile (p\<lparr> hasDiabetes := False \<rparr>)))
   \<and> js_ge (healthRiskScore (submitProfile (p\<lparr> hasHighBP := True \<rparr>)))
            (healthRiskScore (submitProfile (p\<lparr> hasHighBP := False \<rparr>)))
   \<and> js_ge (healthRiskScore (submitProfile
               (p\<lparr> familyHistory := (familyHistory p)\<lparr> heartDisease := True \<rparr> \<rparr>)))
            (healthRiskScore (submitProfile
               (p\<lparr> familyHistory := (familyHistory p)\<lparr> heartDisease := False \<rparr> \<rparr>)))
   \<and> js_ge (healthRiskScore (submitProfile
               (p\<lparr> familyHistory := (familyHistory p)\<lparr> diabetes := True \<rparr> \<rparr>)))
            (healthRiskScore (submitProfile
               (p\<lparr> familyHistory := (familyHistory p)\<lparr> diabetes := False \<rparr> \<rparr>)))
   \<and> js_ge (healthRiskScore (submitProfile
               (p\<lparr> familyHistory := (familyHistory p)\<lparr> hypertension := True \<rparr> \<rparr>)))
            (healthRiskScore (submitProfile
               (p\<lparr> familyHistory := (familyHistory p)\<lparr> hypertension := False \<rparr> \<rparr>)))"
proof (intro conjI impI)
  assume "js_ge a' a"
  then show "js_ge (healthRiskScore (submitProfile (p\<lparr> age := a' \<rparr>)))
                   (healthRiskScore (submitProfile (p\<lparr> age := a \<rparr>)))"
    by (intro score_mono) (simp add: calculateRiskScore_sum agePoints_mono)
next
  assume "js_ge b (Num (37 / 2)) \<and> js_ge b' b"
  then show "js_ge (healthRiskScore (submitProfile (p\<lparr> bmi := b' \<rparr>)))
                   (healthRiskScore (submitProfile (p\<lparr> bmi := b \<rparr>)))"
    by (intro score_mono) (simp add: calculateRiskScore_sum bmiPoints_mono)
next
  assume "smokingRisk x \<le> smokingRisk x'"
  then show "js_ge (healthRiskScore (submitProfile (p\<lparr> smokingStatus := x' \<rparr>)))
                   (healthRiskScore (submitProfile (p\<lparr> smokingStatus := x \<rparr>)))"
    by (intro score_mono) (simp add: calculateRiskScore_sum smokingPoints_mono)
next
  assume "alcoholRisk y \<le> alcoholRisk y'"
  then show "js_ge (healthRiskScore (submitProfile (p\<lparr> alcoholConsumption := y' \<rparr>)))
                   (healthRiskScore (submitProfile (p\<lparr> alcoholConsumption := y \<rparr>)))"
    by (intro score_mono) (simp add: calculateRiskScore_sum alcoholPoints_mono)
next
  assume "activityRisk z \<le> activityRisk z'"
  then show "js_ge (healthRiskScore (submitProfile (p\<lparr> activityLevel := z' \<rparr>)))
                   (healthRiskScore (submitProfile (p\<lparr> activityLevel := z \<rparr>)))"
    by (intro score_mono) (simp add: calculateRiskScore_sum activityPoints_mono)
qed (intro score_mono, simp add: calculateRiskScore_sum flagPoints_def)+

theorem score_monotone_in_each_factor_witness:
  "js_ge (Num 70) (Num 30)
   \<and> js_ge (healthRiskScore (submitProfile ((profileData (mount None))\<lparr> age := Num 70 \<rparr>)))
           (healthRiskScore (submitProfile ((profileData (mount None))\<lparr> age := Num 30 \<rparr>)))
   \<and> js_ge (Num 20) (Num (37 / 2)) \<and> js_ge (Num 31) (Num 20)
   \<and> js_ge (healthRiskScore (submitProfile ((profileData (mount None))\<lparr> bmi := Num 31 \<rparr>)))
           (healthRiskScore (submitProfile ((profileData (mount None))\<lparr> bmi := Num 20 \<rparr>)))
   \<and> smokingRisk never \<le> smokingRisk current
   \<and> js_ge (healthRiskScore (submitProfile ((profileData (mount None))\<lparr> smokingStatus := current \<rparr>)))
           (healthRiskScore (submitProfile ((profileData (mount None))\<lparr> smokingStatus := never \<rparr>)))
   \<and> alcoholRisk none \<le> alcoholRisk heavy
   \<and> js_ge (healthRiskScore (submitProfile ((profileData (mount None))\<lparr> alcoholConsumption := heavy \<rparr>)))
           (healthRiskScore (submitProfile ((profileData (mount None))\<lparr> alcoholConsumption := none \<rparr>)))
   \<and> activityRisk active \<le> activityRisk sedentary
   \<and> js_ge (healthRiskScore (submitProfile ((profileData (mount None))\<lparr> activityLevel := sedentary \<rparr>)))
           (healthRiskScore (submitProfile ((profileData (mount None))\<lparr> activityLevel := active \<rparr>)))"
  using score_monotone_in_each_factor
    [where a = "Num 30" and a' = "Num 70" and b = "Num 20" and b' = "Num 31"
       and x = never and x' = current and y = none and y' = heavy
       and z = active and z' = sedentary and p = "profileData (mount None)"]
  by simp

text \<open>
  C5 as stated fails for the BMI: a BMI below 18.5 adds 10 points, one from 18.5 to below 25
  adds none. With the other fields of the freshly mounted page, a BMI of 18 stores 15 and a
  BMI of 20 stores 5; through the form, at height 170 the weight 50 gives the BMI 17.3 and
  the score 15, the weight 60 the BMI 20.8 and the score 5.
\<close>

theorem underweight_counterexample:
  "js_ge (Num 20) (Num 18)
   \<and> healthRiskScore (submitProfile ((profileData (mount None))\<lparr> bmi := Num 18 \<rparr>)) = Num 15
   \<and> healthRiskScore (submitProfile ((profileData (mount None))\<lparr> bmi := Num 20 \<rparr>)) = Num 5
   \<and> \<not> js_ge (healthRiskScore (submitProfile ((profileData (mount None))\<lparr> bmi := Num 20 \<rparr>)))
              (healthRiskScore (submitProfile ((profileData (mount None))\<lparr> bmi := Num 18 \<rparr>)))
   \<and> bmi (profileData lightWeight) = fl (173 / 10)
   \<and> bmi (profileData heavierWeight) = fl (208 / 10)
   \<and> healthRiskScore (submitProfile (profileData lightWeight)) = Num 15
   \<and> healthRiskScore (submitProfile (profileData heavierWeight)) = Num 5"
  by (simp add: healthRiskScore_submitProfile calculateRiskScore_sum mount_profileData
      initialProfileData_def lightWeight_def heavierWeight_def changeInput_def
      render_def runEffect_def mountedPage_eq bmiEffect_def calcBmi_170_50
      calcBmi_170_60 fl_173_10 fl_104_5 fl_121_5
      agePoints_def bmiPoints_def smokingPoints_def alcoholPoints_def activityPoints_def
      flagPoints_def js_gt_def)


text \<open>
  C6 (as amended). For a height from 100 to 250 and a weight from 20 to 300, the computed
  BMI is the number that a one-decimal numeral denotes, that decimal lies within
  \<open>0.05 + 10^-12\<close> of the exact quotient, and it is the exact quotient rounded to one
  decimal unless the quotient is within \<open>10^-12\<close> of a rounding boundary. For the height
  170 and the weight 70 it is 24.2.
\<close>

theorem calcBmi_rounds_quotient:
  "(100 \<le> h \<and> h \<le> 250 \<and> 20 \<le> w \<and> w \<le> 300 \<longrightarrow>
      (\<exists>n. calcBmi (Num h) (Num w) = Number (Tenths n)
            \<and> \<bar>of_int n / 10 - exact_bmi h w\<bar> \<le> 1 / 20 + 1 / 10 ^ 12
            \<and> (\<not> near_rounding_boundary (exact_bmi h w) \<longrightarrow> n = round1 (exact_bmi h w))))
   \<and> calcBmi (Num 170) (Num 70) = Number (Tenths 242)"
  using calcBmi_valid [of h w] calcBmi_170_70 by simp

theorem calcBmi_rounds_quotient_witness:
  "(100::rat) \<le> 170 \<and> (170::rat) \<le> 250 \<and> (20::rat) \<le> 70 \<and> (70::rat) \<le> 300
   \<and> \<not> near_rounding_boundary (exact_bmi 170 70)
   \<and> round1 (exact_bmi 170 70) = 242
   \<and> calcBmi (Num 170) (Num 70) = Number (Tenths (round1 (exact_bmi 170 70)))"
proof -
  have r: "round1 (exact_bmi 170 70) = 242"
    by (simp add: round1_def exact_bmi_def floor_eq_iff power2_eq_square)
  have lo: "round1 (exact_bmi 170 70 - 1 / 10 ^ 12) = 242"
    by (simp add: round1_def exact_bmi_def floor_eq_iff power2_eq_square)
  have hi: "round1 (exact_bmi 170 70 + 1 / 10 ^ 12) = 242"
    by (simp add: round1_def exact_bmi_def floor_eq_iff power2_eq_square)
  have nb: "\<not> near_rounding_boundary (exact_bmi 170 70)"
    unfolding near_rounding_boundary_def lo hi by simp
  from calcBmi_rounds_quotient [of 170 70] nb
  obtain n where "calcBmi (Num 170) (Num 70) = Number (Tenths n)" "n = round1 (exact_bmi 170 70)"
    by auto
  with r nb show ?thesis by simp
qed

text \<open>
  C6 as stated fails: for the height 160 and the weight 48 the exact quotient is 18.75,
  which rounds to 18.8 (ties up, or ties to even); in double arithmetic
  \<open>1.6 * 1.6\<close> is slightly above 2.56, the quotient slightly below 18.75, and the
  computed BMI is 18.7.
\<close>

theorem calcBmi_160_48_counterexample:
  "exact_bmi 160 48 = 75 / 4
   \<and> round1 (exact_bmi 160 48) = 188
   \<and> round_half_even (10 * exact_bmi 160 48) = 188
   \<and> calcBmi (Num 160) (Num 48) = Number (Tenths 187)
   \<and> Number (Tenths 187) \<noteq> Number (Tenths 188)
   \<and> calcBmi (Num 160) (Num 48) \<noteq> Number (Tenths (round1 (exact_bmi 160 48)))"
proof -
  have e: "exact_bmi 160 48 = 75 / 4" by (simp add: exact_bmi_def power2_eq_square)
  have r: "round1 (exact_bmi 160 48) = 188" by (simp add: e round1_def floor_eq_iff)
  have f: "\<lfloor>375 / 2 :: rat\<rfloor> = 187" by (simp add: floor_eq_iff)
  have r': "round_half_even (10 * exact_bmi 160 48) = 188"
    by (simp add: e round_half_even_def Let_def f)
  have c: "calcBmi (Num 160) (Num 48) = Number (Tenths 187)" by (simp add: calcBmi_160_48)
  have n: "Number (Tenths 187) \<noteq> Number (Tenths 188)"
    using fl_187_10 fl_188_10 by simp
  show ?thesis using e r r' c n by simp
qed


text \<open>
  C7. With age 70, a BMI of at least 30, current smoking, heavy alcohol consumption, a
  sedentary activity level and all six flags set, the sum is 183, above 100; the stored score
  is exactly 100 and the category is high.
\<close>

theorem all_factors_clamp:
  assumes "age p = Num 70" "js_ge (bmi p) (Num 30)"
    "smokingStatus p = current" "alcoholConsumption p = heavy" "activityLevel p = sedentary"
    "hasHypertension p" "hasDiabetes p" "hasHighBP p"
    "heartDisease (familyHistory p)" "diabetes (familyHistory p)" "hypertension (familyHistory p)"
  shows "calculateRiskScore p = 183 \<and> 100 < calculateRiskScore p
         \<and> healthRiskScore (submitProfile p) = Num 100
         \<and> predictedRisk (submitProfile p) = high"
proof -
  have "calculateRiskScore p = 183"
    using assms by (simp add: calculateRiskScore_def js_gt_def)
  then show ?thesis
    by (simp add: healthRiskScore_submitProfile predictedRisk_submitProfile)
qed

theorem all_factors_clamp_witness:
  "age allFactors = Num 70 \<and> js_ge (bmi allFactors) (Num 30)
   \<and> calculateRiskScore allFactors = 183
   \<and> healthRiskScore (submitProfile allFactors) = Num 100
   \<and> predictedRisk (submitProfile allFactors) = high"
  using all_factors_clamp [of allFactors] by (simp add: allFactors_def)

text \<open>
  C8. Two evaluations of profiles with equal input fields give equal derived values,
  whatever derived values the two profiles held before.
\<close>

theorem evaluate_deterministic:
  "same_inputs p q \<Longrightarrow> evaluate p = evaluate q"
  by (simp add: evaluate_eq calculateRiskScore_bmiEffect_cong) (simp add: same_inputs_def)

theorem evaluate_deterministic_witness:
  "same_inputs (initialProfileData None)
     ((initialProfileData None)\<lparr> bmi := Num 99, healthRiskScore := Num 77, predictedRisk := high \<rparr>)
   \<and> evaluate (initialProfileData None)
       = evaluate ((initialProfileData None)
                     \<lparr> bmi := Num 99, healthRiskScore := Num 77, predictedRisk := high \<rparr>)"
  using evaluate_deterministic
    [of "initialProfileData None"
        "(initialProfileData None)\<lparr> bmi := Num 99, healthRiskScore := Num 77, predictedRisk := high \<rparr>"]
  by (simp add: same_inputs_def)

text \<open>
  C9. The two \<open>getRiskLevel\<close> functions agree on every score, and the level is Low below
  30, Medium from 30 to below 60, and High otherwise.
\<close>

theorem getRiskLevel_pages_agree:
  "DashboardPage_getRiskLevel score = getRiskLevel score
   \<and> level (getRiskLevel score) =
       (if js_lt score (Num 30) then ''Low''
        else if js_ge score (Num 30) \<and> js_lt score (Num 60) then ''Medium''
        else ''High'')"
  by (cases score) (simp_all add: DashboardPage_getRiskLevel_def getRiskLevel_def)

text \<open>
  C10. When the login request is rejected or answered with \<open>success\<close> false, \<open>login\<close>
  returns false and leaves the user, the stored token and the default headers as they were.
\<close>

theorem login_failure_atomic:
  assumes "login_failed r"
  shows "fst (login email password r s) = False
         \<and> user (snd (login email password r s)) = user s
         \<and> localStorage (snd (login email password r s)) = localStorage s
         \<and> headers_common (snd (login email password r s)) = headers_common s"
proof (cases r)
  case (Rejected m)
  then show ?thesis by simp
next
  case (Response ok d m)
  with assms have "\<not> ok" by (simp add: login_failed_def)
  with Response show ?thesis by simp
qed

theorem login_failure_atomic_witness:
  "login_failed (Response False None (Some ''Invalid credentials'') :: string post_result)
   \<and> fst (login ''a@b.c'' ''pw'' (Response False None (Some ''Invalid credentials'')) loggedOut) = False
   \<and> user (snd (login ''a@b.c'' ''pw'' (Response False None (Some ''Invalid credentials'')) loggedOut)) = None
   \<and> localStorage (snd (login ''a@b.c'' ''pw'' (Response False None (Some ''Invalid credentials'')) loggedOut))
         ''vitalae_token'' = None
   \<and> headers_common (snd (login ''a@b.c'' ''pw'' (Response False None (Some ''Invalid credentials'')) loggedOut))
         ''Authorization'' = None"
  using login_failure_atomic
    [of "Response False None (Some ''Invalid credentials'')" "''a@b.c''" "''pw''" loggedOut]
  by (simp add: login_failed_def loggedOut_def)

end
